theory Spec2Isabelle
  imports Complex_Main
begin

section \<open>Tables as the application holds them\<close>

text \<open>
  The application keeps seven tables as pandas data frames and persists each one as a CSV
  file. A cell is an integer, a finite float (the rational it denotes), an infinite float
  (\<open>InfV True\<close> is plus infinity, \<open>InfV False\<close> minus infinity), a string, a boolean, or
  the missing-value marker NaN. A row maps column names to cells; a data frame is its
  ordered column list together with its ordered rows. A finite float is taken exactly and
  an integer held as a float keeps its value: the rounding of float64, which sets in for
  integers beyond \<open>2^53\<close>, is outside this development.
\<close>

datatype cell = IntV int | FloatV rat | InfV bool | StrV string | BoolV bool | NaN

type_synonym row = "string \<rightharpoonup> cell"

type_synonym pydict = "(string \<times> cell) list"

record dataframe =
  columns :: "string list"
  rows :: "row list"

datatype exn =
    KeyError string
  | ValueError string
  | TypeError string
  | OverflowError string
  | OSError string
  | OtherError string

text \<open>Reading a cell of a row; a column the row has no value for reads as NaN.\<close>

definition cell :: "row \<Rightarrow> string \<Rightarrow> cell" where
  "cell r c = (case r c of None \<Rightarrow> NaN | Some v \<Rightarrow> v)"

text \<open>\<^verbatim>\<open>d.get(c)\<close> on the dictionary of a new row, NaN for a key it does not have.\<close>

definition dict_get :: "pydict \<Rightarrow> string \<Rightarrow> cell" where
  "dict_get d c = (case map_of d c of None \<Rightarrow> NaN | Some v \<Rightarrow> v)"

text \<open>\<^verbatim>\<open>pd.DataFrame()\<close>: no columns, no rows.\<close>

definition DataFrame_empty :: dataframe where
  "DataFrame_empty = \<lparr>columns = [], rows = []\<rparr>"

text \<open>\<^verbatim>\<open>pd.DataFrame(columns=[...])\<close>: a schema with no rows.\<close>

definition DataFrame_columns :: "string list \<Rightarrow> dataframe" where
  "DataFrame_columns cs = \<lparr>columns = cs, rows = []\<rparr>"

text \<open>Alignment of a row to a column list: a column without a value is filled with NaN.\<close>

definition fill_row :: "string list \<Rightarrow> row \<Rightarrow> row" where
  "fill_row cs r = (\<lambda>c. if c \<in> set cs \<and> r c = None then Some NaN else r c)"

text \<open>
  Column dtypes. pandas keeps one dtype per column, and the dtype of a column here is the
  one pandas infers from its cells. What matters is float64: a column in which every
  cell is a number or NaN, and some cell is a float or NaN, is a float64 column, and an
  integer in it is held as a float (3 becomes 3.0). A column of integers only is int64, a
  column of booleans only is bool, and every other column (a text among the cells, or
  booleans next to other cells) is an object column, whose cells stay as they are. A
  function that builds a frame from pieces fixes the dtypes of the result this way.
\<close>

definition is_number :: "cell \<Rightarrow> bool" where
  "is_number v = (case v of IntV i \<Rightarrow> True | FloatV q \<Rightarrow> True | InfV b \<Rightarrow> True | NaN \<Rightarrow> True | _ \<Rightarrow> False)"

definition is_floating :: "cell \<Rightarrow> bool" where
  "is_floating v = (case v of FloatV q \<Rightarrow> True | InfV b \<Rightarrow> True | NaN \<Rightarrow> True | _ \<Rightarrow> False)"

definition float64_cells :: "cell list \<Rightarrow> bool" where
  "float64_cells vs = (list_all is_number vs \<and> list_ex is_floating vs)"

definition to_float :: "cell \<Rightarrow> cell" where
  "to_float v = (case v of IntV i \<Rightarrow> FloatV (of_int i) | _ \<Rightarrow> v)"

definition astype_inferred :: "string list \<Rightarrow> row list \<Rightarrow> row list" where
  "astype_inferred cs rs =
     map (\<lambda>r c. if c \<in> set cs \<and> float64_cells (map (\<lambda>r'. cell r' c) rs)
                 then map_option to_float (r c) else r c) rs"

text \<open>
  \<^verbatim>\<open>pd.DataFrame([d1, d2, ...])\<close> from a list of dictionaries: the columns are the keys in
  order of first appearance, every row is aligned to them, and the dtypes are inferred.
\<close>

definition DataFrame_records :: "pydict list \<Rightarrow> dataframe" where
  "DataFrame_records ds =
     (let cs = rev (remdups (rev (concat (map (map fst) ds))))
      in \<lparr>columns = cs, rows = astype_inferred cs (map (\<lambda>d. fill_row cs (map_of d)) ds)\<rparr>)"

text \<open>\<^verbatim>\<open>df.empty\<close>: some axis has length zero.\<close>

definition df_empty :: "dataframe \<Rightarrow> bool" where
  "df_empty df = (columns df = [] \<or> rows df = [])"

text \<open>\<^verbatim>\<open>df[c]\<close>: the column as a list of cells, KeyError when the frame has no such column.\<close>

definition get_column :: "dataframe \<Rightarrow> string \<Rightarrow> exn + cell list" where
  "get_column df c =
     (if c \<in> set (columns df) then Inr (map (\<lambda>r. cell r c) (rows df)) else Inl (KeyError c))"

text \<open>The cells of a column, row by row (NaN where a row has no value for it).\<close>

definition column_cells :: "dataframe \<Rightarrow> string \<Rightarrow> cell list" where
  "column_cells df c = map (\<lambda>r. cell r c) (rows df)"

text \<open>
  \<^verbatim>\<open>pd.concat([a, b], ignore_index=True)\<close>: the columns of \<open>a\<close> followed by the new ones of
  \<open>b\<close>; the rows of \<open>a\<close> followed by the rows of \<open>b\<close>, each aligned to the joint columns
  (NaN where a frame has no such column). Each column of the result gets the common
  dtype of its pieces: an integer column that meets floats or NaN becomes a float64
  column, its integers held as floats, and likewise an integer that joins a float64
  column.
\<close>

definition pd_concat :: "dataframe \<Rightarrow> dataframe \<Rightarrow> dataframe" where
  "pd_concat a b =
     (let cs = columns a @ filter (\<lambda>c. c \<notin> set (columns a)) (columns b)
      in \<lparr>columns = cs, rows = astype_inferred cs (map (fill_row cs) (rows a @ rows b))\<rparr>)"

text \<open>
  \<^verbatim>\<open>df.loc[mask, col] = v\<close> for a text \<open>v\<close> (the application assigns nothing but texts
  this way): the rows selected by the boolean mask get \<open>v\<close> in column \<open>col\<close>; a column the
  frame does not have yet is added, NaN in the rows not selected. A text fits next to any
  cells, so no other cell of the column changes. (pandas 2 widens a numeric column to
  hold the text; a pandas that refuses to widen raises instead, and the handler then
  saves nothing.)
\<close>

definition loc_set :: "dataframe \<Rightarrow> bool list \<Rightarrow> string \<Rightarrow> string \<Rightarrow> dataframe" where
  "loc_set df msk col v =
     \<lparr>columns = (if col \<in> set (columns df) then columns df else columns df @ [col]),
      rows = map (\<lambda>(m, r). if m then r(col \<mapsto> StrV v) else fill_row [col] r) (zip msk (rows df))\<rparr>"

text \<open>
  Numbers as pandas compares them: the rationals with the two infinities, in their order.
\<close>

datatype xnum = NInf | Fin rat | PInf

instantiation xnum :: linorder
begin

definition less_eq_xnum :: "xnum \<Rightarrow> xnum \<Rightarrow> bool" where
  "less_eq_xnum x y =
     (case x of NInf \<Rightarrow> True
      | Fin a \<Rightarrow> (case y of NInf \<Rightarrow> False | Fin b \<Rightarrow> a \<le> b | PInf \<Rightarrow> True)
      | PInf \<Rightarrow> (case y of PInf \<Rightarrow> True | _ \<Rightarrow> False))"

definition less_xnum :: "xnum \<Rightarrow> xnum \<Rightarrow> bool" where
  "less_xnum x y = (x \<le> y \<and> \<not> y \<le> (x :: xnum))"

instance
  by standard (auto simp add: less_eq_xnum_def less_xnum_def split: xnum.splits)

end

text \<open>
  The number a cell denotes without any parsing (a boolean counts as 0 or 1), and
  \<^verbatim>\<open>series == v\<close> on one cell: numbers compare by value, strings by text, and NaN or a
  string never equals a number.
\<close>

definition cell_num :: "cell \<Rightarrow> xnum option" where
  "cell_num v =
     (case v of IntV i \<Rightarrow> Some (Fin (of_int i)) | FloatV q \<Rightarrow> Some (Fin q)
      | InfV b \<Rightarrow> Some (if b then PInf else NInf) | StrV s \<Rightarrow> None
      | BoolV b \<Rightarrow> Some (Fin (if b then 1 else 0)) | NaN \<Rightarrow> None)"

definition cell_eq :: "cell \<Rightarrow> cell \<Rightarrow> bool" where
  "cell_eq a b =
     (case (cell_num a, cell_num b) of
        (Some x, Some y) \<Rightarrow> x = y
      | _ \<Rightarrow> (case (a, b) of (StrV s, StrV t) \<Rightarrow> s = t | _ \<Rightarrow> False))"

definition pd_any :: "bool list \<Rightarrow> bool" where
  "pd_any msk = (True \<in> set msk)"

subsection \<open>Numeric reading of a column\<close>

text \<open>
  \<^verbatim>\<open>pd.to_numeric(series, errors="coerce")\<close> on one cell. How pandas reads a string as a
  number is the library's business and is a parameter \<open>str_num\<close> (\<open>None\<close> when the string is
  not numeric, which \<open>coerce\<close> turns into NaN).
\<close>

definition to_numeric_cell :: "(string \<Rightarrow> xnum option) \<Rightarrow> cell \<Rightarrow> xnum option" where
  "to_numeric_cell str_num_fn v = (case v of StrV s \<Rightarrow> str_num_fn s | _ \<Rightarrow> cell_num v)"

primrec dropna :: "'a option list \<Rightarrow> 'a list" where
  "dropna [] = []"
| "dropna (x # xs) = (case x of None \<Rightarrow> dropna xs | Some v \<Rightarrow> v # dropna xs)"

text \<open>\<^verbatim>\<open>series.max()\<close>: NaN is skipped; the result is NaN when nothing is left.\<close>

definition series_max :: "xnum option list \<Rightarrow> xnum option" where
  "series_max xs = (case dropna xs of [] \<Rightarrow> None | q # qs \<Rightarrow> Some (fold max qs q))"

text \<open>
  Python's \<^verbatim>\<open>int(x)\<close> on the maximum: truncation toward zero for a finite number,
  ValueError on NaN, OverflowError on an infinity.
\<close>

definition py_trunc :: "rat \<Rightarrow> int" where
  "py_trunc q = (if 0 \<le> q then \<lfloor>q\<rfloor> else \<lceil>q\<rceil>)"

definition py_int :: "xnum option \<Rightarrow> exn + int" where
  "py_int x =
     (case x of None \<Rightarrow> Inl (ValueError ''cannot convert float NaN to integer'')
      | Some NInf \<Rightarrow> Inl (OverflowError ''cannot convert float infinity to integer'')
      | Some PInf \<Rightarrow> Inl (OverflowError ''cannot convert float infinity to integer'')
      | Some (Fin q) \<Rightarrow> Inr (py_trunc q))"

text \<open>
  \<^verbatim>\<open>next_sequential_id(df, id_col)\<close>. The frame may be \<open>None\<close>; every exception of the
  numeric reading is caught and answered with 1.
\<close>

definition next_sequential_id :: "(string \<Rightarrow> xnum option) \<Rightarrow> dataframe option \<Rightarrow> string \<Rightarrow> int" where
  "next_sequential_id str_num_fn dfo id_col =
     (case dfo of None \<Rightarrow> 1
      | Some df \<Rightarrow>
          if df_empty df \<or> id_col \<notin> set (columns df) then 1
          else (case get_column df id_col of Inl e \<Rightarrow> 1
                | Inr s \<Rightarrow>
                    (case py_int (series_max (map (to_numeric_cell str_num_fn) s)) of
                       Inl e \<Rightarrow> 1
                     | Inr n \<Rightarrow> n + 1)))"

text \<open>The numeric values of a column, in row order: what the maximum is taken over.\<close>

definition numeric_values :: "(string \<Rightarrow> xnum option) \<Rightarrow> dataframe \<Rightarrow> string \<Rightarrow> xnum list" where
  "numeric_values str_num_fn df c =
     dropna (map (\<lambda>r. to_numeric_cell str_num_fn (cell r c)) (rows df))"


section \<open>Text, time and notices\<close>

text \<open>
  Strings are byte strings in UTF-8; the letters of the Spanish texts outside ASCII are
  written by their bytes.
\<close>

definition a_acute :: string where "a_acute = [CHR 0xC3, CHR 0xA1]"
definition A_acute :: string where "A_acute = [CHR 0xC3, CHR 0x81]"
definition i_acute :: string where "i_acute = [CHR 0xC3, CHR 0xAD]"
definition o_acute :: string where "o_acute = [CHR 0xC3, CHR 0xB3]"
definition degree_sign :: string where "degree_sign = [CHR 0xC2, CHR 0xB0]"

definition digit_char :: "nat \<Rightarrow> char" where
  "digit_char n = ''0123456789'' ! (n mod 10)"

fun str_nat :: "nat \<Rightarrow> string" where
  "str_nat n = (if n < 10 then [digit_char n] else str_nat (n div 10) @ [digit_char n])"

declare str_nat.simps [simp del]

text \<open>Python's \<^verbatim>\<open>str(n)\<close> for an integer, as the f-strings print an identifier.\<close>

definition str_int :: "int \<Rightarrow> string" where
  "str_int n = (if n < 0 then CHR ''-'' # str_nat (nat (- n)) else str_nat (nat n))"

text \<open>A reading of the wall clock, and \<^verbatim>\<open>now_iso()\<close>: the reading printed as
  \<^verbatim>\<open>%Y-%m-%d %H:%M:%S\<close>. The clock is an input of the model.\<close>

record datetime =
  year :: nat
  month :: nat
  day :: nat
  hour :: nat
  minute :: nat
  second :: nat

definition pad2 :: "nat \<Rightarrow> string" where
  "pad2 n = [digit_char (n div 10), digit_char n]"

definition pad4 :: "nat \<Rightarrow> string" where
  "pad4 n = [digit_char (n div 1000), digit_char (n div 100)] @ pad2 n"

definition now_iso :: "datetime \<Rightarrow> string" where
  "now_iso t =
     pad4 (year t) @ ''-'' @ pad2 (month t) @ ''-'' @ pad2 (day t) @ '' '' @
     pad2 (hour t) @ '':'' @ pad2 (minute t) @ '':'' @ pad2 (second t)"

text \<open>What the page shows the user: \<^verbatim>\<open>st.warning\<close>, \<^verbatim>\<open>st.success\<close>, \<^verbatim>\<open>st.info\<close>.\<close>

datatype notice = Warning string | Success string | Info string


text \<open>Exceptions as values: sequencing, and \<^verbatim>\<open>try: ... except Exception: ...\<close>.\<close>

definition bind_exn :: "exn + 'a \<Rightarrow> ('a \<Rightarrow> exn + 'b) \<Rightarrow> exn + 'b" where
  "bind_exn m f = (case m of Inl e \<Rightarrow> Inl e | Inr v \<Rightarrow> f v)"


section \<open>Files\<close>

text \<open>
  The data directory is a map from paths to file contents. What pandas writes for a frame
  (\<open>to_csv\<close>) and how it parses a file (\<open>read_csv\<close>, which may raise) are the library's and
  are parameters, with its reading of numeric strings and its printing of floats.
\<close>

type_synonym fs = "string \<rightharpoonup> string"

record lib =
  to_csv :: "dataframe \<Rightarrow> string"
  read_csv :: "string \<Rightarrow> exn + dataframe"
  str_num :: "string \<Rightarrow> xnum option"
  str_float :: "rat \<Rightarrow> string"

definition F_USUARIOS :: string where "F_USUARIOS = ''data/usuarios.csv''"
definition F_ACTIVOS :: string where "F_ACTIVOS = ''data/activos.csv''"
definition F_NOTIF :: string where "F_NOTIF = ''data/notificaciones.csv''"
definition F_RONDAS_PLT :: string where "F_RONDAS_PLT = ''data/rondas_plantillas.csv''"
definition F_RONDAS_RUN :: string where "F_RONDAS_RUN = ''data/rondas_ejecuciones.csv''"
definition F_INCIDENTES :: string where "F_INCIDENTES = ''data/incidentes.csv''"
definition F_PTWOT :: string where "F_PTWOT = ''data/ptw_ot.csv''"


text \<open>\<^verbatim>\<open>path.with_suffix(path.suffix + ".tmp")\<close>: the same path with \<^verbatim>\<open>.tmp\<close> added.\<close>

definition tmp_path :: "string \<Rightarrow> string" where
  "tmp_path path = path @ ''.tmp''"

text \<open>\<^verbatim>\<open>src.replace(dst)\<close>: one rename; it raises when the source does not exist.\<close>

definition path_replace :: "fs \<Rightarrow> string \<Rightarrow> string \<Rightarrow> exn + fs" where
  "path_replace files src dst =
     (case files src of None \<Rightarrow> Inl (OSError ''FileNotFoundError'')
      | Some content \<Rightarrow> Inr ((files(src := None))(dst \<mapsto> content)))"

text \<open>
  What a function does to the data directory is a sequence of file operations: writing
  a whole text to a path (the file is created or emptied and then filled), and renaming
  one path over another. The operating system may refuse an operation on a path;
  \<open>may\<close> tells on which paths it lets the process write.
\<close>

datatype fs_op = WriteFile string string | ReplaceFile string string

fun exec_op :: "(string \<Rightarrow> bool) \<Rightarrow> fs_op \<Rightarrow> fs \<Rightarrow> exn + fs" where
  "exec_op may (WriteFile p content) files =
     (if may p then Inr (files(p \<mapsto> content)) else Inl (OSError ''PermissionError''))"
| "exec_op may (ReplaceFile src dst) files =
     (if may dst then path_replace files src dst else Inl (OSError ''PermissionError''))"

fun run_ops :: "(string \<Rightarrow> bool) \<Rightarrow> fs_op list \<Rightarrow> fs \<Rightarrow> exn + fs" where
  "run_ops may [] files = Inr files"
| "run_ops may (x # xs) files = bind_exn (exec_op may x files) (run_ops may xs)"

text \<open>
  The states an interruption (a crash, a kill, a power cut) can leave behind. Inside a
  write the file holds a proper prefix of the text, from the empty file on; a rename is
  one step of the file system and has no state inside. Between two operations the state
  is the one the first operation ended in.
\<close>

fun partial_op :: "fs_op \<Rightarrow> fs \<Rightarrow> fs list" where
  "partial_op (WriteFile p content) files = map (\<lambda>k. files(p \<mapsto> take k content)) [0..<length content]"
| "partial_op (ReplaceFile src dst) files = []"

fun crash_states :: "(string \<Rightarrow> bool) \<Rightarrow> fs_op list \<Rightarrow> fs \<Rightarrow> fs list" where
  "crash_states may [] files = [files]"
| "crash_states may (x # xs) files =
     files # (case exec_op may x files of Inl e \<Rightarrow> []
              | Inr files' \<Rightarrow> partial_op x files @ crash_states may xs files')"

text \<open>
  \<^verbatim>\<open>save_csv(df, path)\<close>: the whole table to the temporary path, then the rename over the
  final path. \<open>save_csv_in\<close> runs it under the permissions \<open>may\<close>; the application works in
  a data directory it created itself, and \<open>save_csv\<close> is the run in a directory that
  lets it write.
\<close>

definition save_csv_ops :: "(dataframe \<Rightarrow> string) \<Rightarrow> dataframe \<Rightarrow> string \<Rightarrow> fs_op list" where
  "save_csv_ops to_csv_fn df path =
     (let tmp = tmp_path path
      in [WriteFile tmp (to_csv_fn df), ReplaceFile tmp path])"

definition save_csv_in :: "(string \<Rightarrow> bool) \<Rightarrow> (dataframe \<Rightarrow> string) \<Rightarrow> dataframe \<Rightarrow> string \<Rightarrow> fs \<Rightarrow> exn + fs" where
  "save_csv_in may to_csv_fn df path files = run_ops may (save_csv_ops to_csv_fn df path) files"

definition save_csv :: "(dataframe \<Rightarrow> string) \<Rightarrow> dataframe \<Rightarrow> string \<Rightarrow> fs \<Rightarrow> exn + fs" where
  "save_csv to_csv_fn df path files = save_csv_in (\<lambda>p. True) to_csv_fn df path files"



text \<open>
  \<^verbatim>\<open>load_csv\<close> is \<open>_safe_read_csv\<close> behind \<^verbatim>\<open>st.cache_data\<close>: a path read before is answered
  from the cache (with the notices of that read), a new one is read and remembered.
\<close>

type_synonym cache = "string \<rightharpoonup> dataframe \<times> notice list"


section \<open>Seeding\<close>

text \<open>The predefined tables of \<^verbatim>\<open>seed_if_missing\<close>. The clock is read once per timestamp.\<close>

definition seed_usuarios :: dataframe where
  "seed_usuarios = DataFrame_records
     [[(''user_id'', StrV ''op1''), (''nombre'', StrV ''Operario 1''), (''rol'', StrV ''Operario''),
       (''area'', StrV (''Operaci'' @ o_acute @ ''n '' @ A_acute @ ''rea B''))],
      [(''user_id'', StrV ''op2''), (''nombre'', StrV ''Operario 2''), (''rol'', StrV ''Operario''),
       (''area'', StrV (''Operaci'' @ o_acute @ ''n '' @ A_acute @ ''rea A''))],
      [(''user_id'', StrV ''sup1''), (''nombre'', StrV ''Supervisor 1''), (''rol'', StrV ''Supervisor''),
       (''area'', StrV ''Sala Control'')],
      [(''user_id'', StrV ''hse1''), (''nombre'', StrV ''HSE 1''), (''rol'', StrV ''HSE''),
       (''area'', StrV ''HSE'')]]"

definition seed_activos :: dataframe where
  "seed_activos = DataFrame_records
     [[(''tag'', StrV ''V-210''),
       (''descripcion'', StrV (''V'' @ a_acute @ ''lvula de control l'' @ i_acute @ ''nea de producci'' @ o_acute @ ''n'')),
       (''area'', StrV (A_acute @ ''rea B''))],
      [(''tag'', StrV ''P-101''), (''descripcion'', StrV ''Bomba de transferencia''),
       (''area'', StrV (A_acute @ ''rea A''))],
      [(''tag'', StrV ''TK-1203''), (''descripcion'', StrV ''Tanque crudo estabilizado''),
       (''area'', StrV ''Tanques'')],
      [(''tag'', StrV ''K-301''),
       (''descripcion'', StrV (''Compresor gas baja presi'' @ o_acute @ ''n'')),
       (''area'', StrV (''Compresi'' @ o_acute @ ''n''))]]"

definition seed_notif :: "datetime \<Rightarrow> datetime \<Rightarrow> dataframe" where
  "seed_notif t1 t2 = DataFrame_records
     [[(''id'', IntV 1), (''ts_creacion'', StrV (now_iso t1)), (''tag'', StrV ''V-210''),
       (''titulo'', StrV (''Chequear v'' @ a_acute @ ''lvula V-210'')),
       (''motivo'', StrV (''Sobrepresi'' @ o_acute @ ''n'')), (''prioridad'', StrV ''P1''),
       (''estado'', StrV ''Pendiente''), (''asignado_a'', StrV ''Operario 1''),
       (''ts_recibida'', StrV []), (''ts_cerrada'', StrV []), (''evidencia'', StrV [])],
      [(''id'', IntV 2), (''ts_creacion'', StrV (now_iso t2)), (''tag'', StrV ''P-101''),
       (''titulo'', StrV (''Verificar sello mec'' @ a_acute @ ''nico'')),
       (''motivo'', StrV ''Goteo observado''), (''prioridad'', StrV ''P2''),
       (''estado'', StrV ''Pendiente''), (''asignado_a'', StrV ''Operario 2''),
       (''ts_recibida'', StrV []), (''ts_cerrada'', StrV []), (''evidencia'', StrV [])]]"

definition seed_rondas :: dataframe where
  "seed_rondas = DataFrame_records
     [[(''plantilla'', StrV ''Ronda Compresores''), (''tag'', StrV ''K-301''),
       (''variable'', StrV (''Presi'' @ o_acute @ ''n succi'' @ o_acute @ ''n [bar]'')),
       (''lim_inf'', FloatV 2), (''lim_sup'', FloatV 5)],
      [(''plantilla'', StrV ''Ronda Compresores''), (''tag'', StrV ''K-301''),
       (''variable'', StrV (''Temperatura carcasa ['' @ degree_sign @ ''C]'')),
       (''lim_inf'', FloatV 20), (''lim_sup'', FloatV 80)],
      [(''plantilla'', StrV ''Ronda Tanques''), (''tag'', StrV ''TK-1203''),
       (''variable'', StrV ''Nivel [%]''), (''lim_inf'', FloatV 10), (''lim_sup'', FloatV 85)],
      [(''plantilla'', StrV ''Ronda Tanques''), (''tag'', StrV ''TK-1203''),
       (''variable'', StrV (''Temperatura ['' @ degree_sign @ ''C]'')),
       (''lim_inf'', FloatV 10), (''lim_sup'', FloatV 60)]]"

definition seed_rondas_run :: dataframe where
  "seed_rondas_run = DataFrame_columns
     [''id'', ''ts'', ''plantilla'', ''tag'', ''variable'', ''valor'', ''en_rango'', ''operario'']"

definition seed_inc :: "datetime \<Rightarrow> dataframe" where
  "seed_inc t = DataFrame_records
     [[(''id'', IntV 1), (''ts'', StrV (now_iso t)), (''tag'', StrV ''V-210''),
       (''titulo'', StrV (''Near Miss por sobrepresi'' @ o_acute @ ''n'')),
       (''severidad'', StrV ''Medio''),
       (''descripcion'', StrV ''Se detecta lectura por encima del umbral''),
       (''reportado_por'', StrV ''Operario 1''), (''estado'', StrV ''Abierto'')]]"

definition seed_ptw :: "datetime \<Rightarrow> dataframe" where
  "seed_ptw t = DataFrame_records
     [[(''id'', IntV 1), (''ts_solicitud'', StrV (now_iso t)), (''tipo'', StrV ''Trabajo caliente''),
       (''solicitante'', StrV ''Supervisor 1''), (''area'', StrV (A_acute @ ''rea B'')),
       (''estado'', StrV ''Borrador''), (''aprob_hse'', StrV ''No''), (''ts_cierre'', StrV []),
       (''adjuntos'', StrV [])]]"

text \<open>One step of the seeding: the table is written only when its file does not exist.\<close>

definition seed_file :: "(dataframe \<Rightarrow> string) \<Rightarrow> string \<Rightarrow> dataframe \<Rightarrow> fs \<Rightarrow> exn + fs" where
  "seed_file to_csv_fn path df files =
     (if path \<notin> dom files then save_csv to_csv_fn df path files else Inr files)"

text \<open>
  \<^verbatim>\<open>seed_if_missing()\<close>; \<open>clk k\<close> is the clock reading at the \<open>k\<close>-th call of \<open>now_iso\<close>
  in the text of the function.
\<close>

definition seed_if_missing :: "(dataframe \<Rightarrow> string) \<Rightarrow> (nat \<Rightarrow> datetime) \<Rightarrow> fs \<Rightarrow> exn + fs" where
  "seed_if_missing to_csv_fn clk files =
     bind_exn (seed_file to_csv_fn F_USUARIOS seed_usuarios files) (\<lambda>f1.
     bind_exn (seed_file to_csv_fn F_ACTIVOS seed_activos f1) (\<lambda>f2.
     bind_exn (seed_file to_csv_fn F_NOTIF (seed_notif (clk 0) (clk 1)) f2) (\<lambda>f3.
     bind_exn (seed_file to_csv_fn F_RONDAS_PLT seed_rondas f3) (\<lambda>f4.
     bind_exn (seed_file to_csv_fn F_RONDAS_RUN seed_rondas_run f4) (\<lambda>f5.
     bind_exn (seed_file to_csv_fn F_INCIDENTES (seed_inc (clk 2)) f5) (\<lambda>f6.
     seed_file to_csv_fn F_PTWOT (seed_ptw (clk 3)) f6))))))"

definition data_files :: "string list" where
  "data_files = [F_USUARIOS, F_ACTIVOS, F_NOTIF, F_RONDAS_PLT, F_RONDAS_RUN, F_INCIDENTES, F_PTWOT]"

text \<open>
  The seeding as a table: each data file with its predefined frame, in the order of the
  seven tests of \<open>seed_if_missing\<close>, and the loop over such a table. The loop over this
  table is shown below to be \<open>seed_if_missing\<close>.
\<close>

definition seed_tables :: "(nat \<Rightarrow> datetime) \<Rightarrow> (string \<times> dataframe) list" where
  "seed_tables clk =
     [(F_USUARIOS, seed_usuarios), (F_ACTIVOS, seed_activos),
      (F_NOTIF, seed_notif (clk 0) (clk 1)), (F_RONDAS_PLT, seed_rondas),
      (F_RONDAS_RUN, seed_rondas_run), (F_INCIDENTES, seed_inc (clk 2)),
      (F_PTWOT, seed_ptw (clk 3))]"

fun seed_all :: "(dataframe \<Rightarrow> string) \<Rightarrow> (string \<times> dataframe) list \<Rightarrow> fs \<Rightarrow> exn + fs" where
  "seed_all w [] files = Inr files"
| "seed_all w ((p, df) # rest) files = bind_exn (seed_file w p df files) (seed_all w rest)"

section \<open>The pages\<close>

text \<open>
  What a run of the script works on: the seven tables it loaded, the data directory,
  the cache of \<open>load_csv\<close> and the notices shown so far. Each handler below is the body of
  one button of the application; a widget's value is an argument of the handler, and a
  handler that raises leaves no new state.
\<close>

record session =
  usuarios :: dataframe
  activos :: dataframe
  notifs :: dataframe
  rondas_plt :: dataframe
  rondas_run :: dataframe
  incidentes :: dataframe
  ptwot :: dataframe
  disk :: fs
  st_cache :: cache
  shown :: "notice list"

text \<open>The common tail of every writing handler:
  \<^verbatim>\<open>save_csv(df, path); st.cache_data.clear(); st.success(msg)\<close>.\<close>

definition commit :: "lib \<Rightarrow> dataframe \<Rightarrow> string \<Rightarrow> string \<Rightarrow> session \<Rightarrow> exn + session" where
  "commit L df path msg s =
     bind_exn (save_csv (to_csv L) df path (disk s))
       (\<lambda>d. Inr (s\<lparr>disk := d, st_cache := Map.empty, shown := shown s @ [Success msg]\<rparr>))"

subsection \<open>Notificaciones\<close>

definition notif_row :: "int \<Rightarrow> datetime \<Rightarrow> cell \<Rightarrow> string \<Rightarrow> string \<Rightarrow> string \<Rightarrow> cell \<Rightarrow> string \<Rightarrow> pydict" where
  "notif_row new_id t tag titulo motivo prioridad asignado evid =
     [(''id'', IntV new_id), (''ts_creacion'', StrV (now_iso t)), (''tag'', tag),
      (''titulo'', StrV titulo), (''motivo'', StrV motivo), (''prioridad'', StrV prioridad),
      (''estado'', StrV ''Pendiente''), (''asignado_a'', asignado),
      (''ts_recibida'', StrV []), (''ts_cerrada'', StrV []), (''evidencia'', StrV evid)]"


text \<open>
  The update of the selected rows by the button \<^verbatim>\<open>Aplicar cambio\<close>: the status always,
  each timestamp only for its own status, the evidence only when the text is not empty.
\<close>

definition cambio_estado :: "dataframe \<Rightarrow> bool list \<Rightarrow> string \<Rightarrow> string \<Rightarrow> datetime \<Rightarrow> dataframe" where
  "cambio_estado df msk nuevo_estado evidencia t =
     (let d1 = loc_set df msk ''estado'' nuevo_estado;
          d2 = (if nuevo_estado = ''Recibida'' then loc_set d1 msk ''ts_recibida'' (now_iso t) else d1);
          d3 = (if nuevo_estado = ''Completada'' then loc_set d2 msk ''ts_cerrada'' (now_iso t) else d2)
      in if evidencia \<noteq> [] then loc_set d3 msk ''evidencia'' evidencia else d3)"

text \<open>The button \<^verbatim>\<open>Aplicar cambio\<close>: \<open>sel_id\<close> is the integer of the number input.\<close>

definition aplicar_cambio :: "lib \<Rightarrow> datetime \<Rightarrow> int \<Rightarrow> string \<Rightarrow> string \<Rightarrow> session \<Rightarrow> exn + session" where
  "aplicar_cambio L t sel_id nuevo_estado evidencia s =
     bind_exn (get_column (notifs s) ''id'') (\<lambda>ids.
       let msk = map (\<lambda>v. cell_eq v (IntV sel_id)) ids in
       if pd_any msk then
         (let df = cambio_estado (notifs s) msk nuevo_estado evidencia t
          in commit L df F_NOTIF ''Estado actualizado.'' (s\<lparr>notifs := df\<rparr>))
       else Inr (s\<lparr>shown := shown s @ [Warning ''ID no encontrado.'']\<rparr>))"

subsection \<open>Config and IoT: the simulated pressure event\<close>

definition evaluar_evento :: "lib \<Rightarrow> datetime \<Rightarrow> rat \<Rightarrow> rat \<Rightarrow> session \<Rightarrow> exn + session" where
  "evaluar_evento L t p_actual p_high s =
     (if p_actual > p_high then
        (let new_id = next_sequential_id (str_num L) (Some (notifs s)) ''id'';
             new_row = notif_row new_id t (StrV ''V-210'')
                         (''Alarma presi'' @ o_acute @ ''n alta V-210'')
                         (''P='' @ str_float L p_actual @ '' > '' @ str_float L p_high)
                         ''P1'' (StrV ''Operario 1'') ''Evento IoT simulado'';
             df = pd_concat (notifs s) (DataFrame_records [new_row])
         in commit L df F_NOTIF
              (''Notificaci'' @ o_acute @ ''n P1 creada por evento IoT (ID '' @ str_int new_id @ '').'')
              (s\<lparr>notifs := df\<rparr>))
      else Inr (s\<lparr>shown := shown s @ [Info ''No se dispara evento (P dentro de umbral).'']\<rparr>))"

subsection \<open>PTW / OT\<close>

text \<open>The button \<^verbatim>\<open>Crear PTW\<close>.\<close>

definition crear_ptw :: "lib \<Rightarrow> datetime \<Rightarrow> string \<Rightarrow> cell \<Rightarrow> cell \<Rightarrow> session \<Rightarrow> exn + session" where
  "crear_ptw L t tipo solicitante area s =
     (let new_id = next_sequential_id (str_num L) (Some (ptwot s)) ''id'';
          new_row = [(''id'', IntV new_id), (''ts_solicitud'', StrV (now_iso t)), (''tipo'', StrV tipo),
                     (''solicitante'', solicitante), (''area'', area), (''estado'', StrV ''Borrador''),
                     (''aprob_hse'', StrV ''No''), (''ts_cierre'', StrV []), (''adjuntos'', StrV [])];
          df = pd_concat (ptwot s) (DataFrame_records [new_row])
      in commit L df F_PTWOT (''PTW creado (ID '' @ str_int new_id @ '').'') (s\<lparr>ptwot := df\<rparr>))"

definition cambio_ptw :: "dataframe \<Rightarrow> bool list \<Rightarrow> string \<Rightarrow> string \<Rightarrow> datetime \<Rightarrow> dataframe" where
  "cambio_ptw df msk nuevo aprob_hse t =
     (let d1 = loc_set df msk ''estado'' nuevo;
          d2 = loc_set d1 msk ''aprob_hse'' aprob_hse
      in if nuevo = ''Cerrado'' then loc_set d2 msk ''ts_cierre'' (now_iso t) else d2)"

text \<open>The button \<^verbatim>\<open>Aplicar\<close> of the permits.\<close>

definition aplicar_ptw :: "lib \<Rightarrow> datetime \<Rightarrow> int \<Rightarrow> string \<Rightarrow> string \<Rightarrow> session \<Rightarrow> exn + session" where
  "aplicar_ptw L t idp nuevo aprob_hse s =
     bind_exn (get_column (ptwot s) ''id'') (\<lambda>ids.
       let msk = map (\<lambda>v. cell_eq v (IntV idp)) ids in
       if pd_any msk then
         (let df = cambio_ptw (ptwot s) msk nuevo aprob_hse t
          in commit L df F_PTWOT ''PTW actualizado.'' (s\<lparr>ptwot := df\<rparr>))
       else Inr (s\<lparr>shown := shown s @ [Warning ''ID no encontrado.'']\<rparr>))"

subsection \<open>Incidentes\<close>

text \<open>The button \<^verbatim>\<open>Reportar incidente\<close>.\<close>

definition reportar_incidente :: "lib \<Rightarrow> datetime \<Rightarrow> cell \<Rightarrow> string \<Rightarrow> string \<Rightarrow> string \<Rightarrow> cell \<Rightarrow> session \<Rightarrow> exn + session" where
  "reportar_incidente L t tag titulo severidad descripcion reportado_por s =
     (let new_id = next_sequential_id (str_num L) (Some (incidentes s)) ''id'';
          new_row = [(''id'', IntV new_id), (''ts'', StrV (now_iso t)), (''tag'', tag),
                     (''titulo'', StrV titulo), (''severidad'', StrV severidad),
                     (''descripcion'', StrV descripcion), (''reportado_por'', reportado_por),
                     (''estado'', StrV ''Abierto'')];
          df = pd_concat (incidentes s) (DataFrame_records [new_row])
      in commit L df F_INCIDENTES (''Incidente reportado (ID '' @ str_int new_id @ '').'')
           (s\<lparr>incidentes := df\<rparr>))"

subsection \<open>Rondas\<close>

text \<open>\<^verbatim>\<open>r[c]\<close> on a row of a frame: KeyError when the frame has no such column.\<close>

definition row_item :: "string list \<Rightarrow> row \<Rightarrow> string \<Rightarrow> exn + cell" where
  "row_item cs r c = (if c \<in> set cs then Inr (cell r c) else Inl (KeyError c))"

text \<open>
  A limit of a template row as the arithmetic \<^verbatim>\<open>(lim_inf + lim_sup) / 2\<close> and the
  comparison use it: a number, NaN (\<open>None\<close>), or a TypeError for a string.
\<close>

definition limit_value :: "cell \<Rightarrow> exn + xnum option" where
  "limit_value v =
     (case v of StrV s \<Rightarrow> Inl (TypeError ''unsupported operand type(s)'')
      | _ \<Rightarrow> Inr (cell_num v))"

text \<open>\<^verbatim>\<open>lim_inf <= valor <= lim_sup\<close>: false as soon as a limit is NaN.\<close>

definition en_rango :: "xnum option \<Rightarrow> rat \<Rightarrow> xnum option \<Rightarrow> bool" where
  "en_rango lo valor hi =
     (case lo of None \<Rightarrow> False
      | Some a \<Rightarrow> a \<le> Fin valor \<and> (case hi of None \<Rightarrow> False | Some b \<Rightarrow> Fin valor \<le> b))"

text \<open>
  One pass of the loop over the selected template rows: the dictionary appended to
  \<^verbatim>\<open>rows\<close> for the template row \<open>r\<close> at offset \<open>idx\<close>, with the reading \<open>valor\<close> of its
  number input and the clock reading \<open>t\<close>.
\<close>

definition lectura :: "lib \<Rightarrow> dataframe \<Rightarrow> string list \<Rightarrow> cell \<Rightarrow> cell \<Rightarrow> nat \<Rightarrow> row \<Rightarrow> rat \<Rightarrow> datetime \<Rightarrow> exn + pydict" where
  "lectura L run cs sel_pl operario idx r valor t =
     bind_exn (row_item cs r ''tag'') (\<lambda>tag.
     bind_exn (row_item cs r ''variable'') (\<lambda>variable.
     bind_exn (row_item cs r ''lim_inf'') (\<lambda>lo.
     bind_exn (row_item cs r ''lim_sup'') (\<lambda>hi.
     bind_exn (limit_value lo) (\<lambda>lo_n.
     bind_exn (limit_value hi) (\<lambda>hi_n.
       Inr [(''id'', IntV (next_sequential_id (str_num L) (Some run) ''id'' + int idx)),
            (''ts'', StrV (now_iso t)), (''plantilla'', sel_pl), (''tag'', tag),
            (''variable'', variable), (''valor'', FloatV valor),
            (''en_rango'', BoolV (en_rango lo_n valor hi_n)), (''operario'', operario)]))))))"

text \<open>The loop: \<open>valores k\<close> and \<open>clk k\<close> are the reading and the clock at offset \<open>k\<close>.\<close>

fun lecturas :: "lib \<Rightarrow> dataframe \<Rightarrow> string list \<Rightarrow> cell \<Rightarrow> cell \<Rightarrow> (nat \<Rightarrow> rat) \<Rightarrow> (nat \<Rightarrow> datetime) \<Rightarrow> nat \<Rightarrow> row list \<Rightarrow> exn + pydict list" where
  "lecturas L run cs sel_pl operario valores clk idx [] = Inr []"
| "lecturas L run cs sel_pl operario valores clk idx (r # rs) =
     bind_exn (lectura L run cs sel_pl operario idx r (valores idx) (clk idx)) (\<lambda>d.
     bind_exn (lecturas L run cs sel_pl operario valores clk (Suc idx) rs) (\<lambda>ds.
       Inr (d # ds)))"

text \<open>
  The rows of the page for the chosen template: the template rows whose \<^verbatim>\<open>plantilla\<close>
  equals the selection, in order, renumbered from 0. The operator is chosen from
  \<^verbatim>\<open>usuarios["nombre"]\<close>, which must exist.
\<close>

definition ronda_rows :: "lib \<Rightarrow> cell \<Rightarrow> cell \<Rightarrow> (nat \<Rightarrow> rat) \<Rightarrow> (nat \<Rightarrow> datetime) \<Rightarrow> session \<Rightarrow> exn + pydict list" where
  "ronda_rows L sel_pl operario valores clk s =
     bind_exn (get_column (rondas_plt s) ''plantilla'') (\<lambda>ps.
     bind_exn (get_column (usuarios s) ''nombre'') (\<lambda>nombres.
       let subset = map snd (filter (\<lambda>(p, r). cell_eq p sel_pl) (zip ps (rows (rondas_plt s))))
       in lecturas L (rondas_run s) (columns (rondas_plt s)) sel_pl operario valores clk 0 subset))"

text \<open>The page with the button \<^verbatim>\<open>Guardar ronda\<close> pressed.\<close>

definition guardar_ronda :: "lib \<Rightarrow> cell \<Rightarrow> cell \<Rightarrow> (nat \<Rightarrow> rat) \<Rightarrow> (nat \<Rightarrow> datetime) \<Rightarrow> session \<Rightarrow> exn + session" where
  "guardar_ronda L sel_pl operario valores clk s =
     (if df_empty (rondas_plt s) then Inr (s\<lparr>shown := shown s @ [Info ''No hay plantillas de rondas.'']\<rparr>)
      else bind_exn (ronda_rows L sel_pl operario valores clk s) (\<lambda>ds.
        if ds \<noteq> [] then
          (let df = pd_concat (rondas_run s) (DataFrame_records ds)
           in commit L df F_RONDAS_RUN ''Ronda guardada.'' (s\<lparr>rondas_run := df\<rparr>))
        else Inr s))"

text \<open>The template rows selected on the page, and the templates whose limits are numbers.\<close>

definition plantilla_rows :: "dataframe \<Rightarrow> cell \<Rightarrow> row list" where
  "plantilla_rows plt sel_pl = filter (\<lambda>r. cell_eq (cell r ''plantilla'') sel_pl) (rows plt)"

definition numeric_limits :: "dataframe \<Rightarrow> bool" where
  "numeric_limits plt =
     (\<forall>r \<in> set (rows plt). \<forall>c \<in> {''lim_inf'', ''lim_sup''}. \<forall>v. cell r c \<noteq> StrV v)"

section \<open>Objects and rebinding\<close>

text \<open>
  A variable of the script holds a reference to a frame object. \<^verbatim>\<open>pd.concat\<close> builds a
  new object and the assignment rebinds the variable; the object the variable referred to
  before stays as it was. The heap makes that visible.
\<close>

type_synonym heap = "dataframe list"

text \<open>
  \<^verbatim>\<open>pd.concat([df, pd.DataFrame([new_row])], ignore_index=True)\<close> on the object at \<open>ref\<close>:
  the result is a new object at the next free reference.
\<close>

definition append_row :: "heap \<Rightarrow> nat \<Rightarrow> pydict \<Rightarrow> exn + nat \<times> heap" where
  "append_row h ref new_row =
     (if ref < length h
      then Inr (length h, h @ [pd_concat (h ! ref) (DataFrame_records [new_row])])
      else Inl (OtherError ''NameError''))"

text \<open>
  Appending the row \<open>d\<close> to the frame \<open>df\<close> widens the column \<open>c\<close> when the column of the
  result is a float64 column; the row fits the frame when no integer, of the frame or of
  the row, comes to stand in a widened column. A row that gives every integer column an
  integer, as the rows built by the application do, fits.
\<close>

definition is_integer :: "cell \<Rightarrow> bool" where
  "is_integer v = (case v of IntV i \<Rightarrow> True | _ \<Rightarrow> False)"

definition widens :: "dataframe \<Rightarrow> pydict \<Rightarrow> string \<Rightarrow> bool" where
  "widens df d c =
     (c \<in> set (columns (pd_concat df (DataFrame_records [d]))) \<and>
      float64_cells (column_cells df c @ [dict_get d c]))"

definition fits :: "dataframe \<Rightarrow> pydict \<Rightarrow> bool" where
  "fits df d =
     (\<forall>c \<in> set (columns (pd_concat df (DataFrame_records [d]))).
        widens df d c \<longrightarrow> \<not> list_ex is_integer (column_cells df c @ [dict_get d c]))"


section \<open>Example data\<close>

text \<open>
  Small concrete inputs on which the properties below are evaluated. The serialiser
  \<open>csv_plain\<close> and the reader of decimal integers \<open>read_decimal\<close> stand in for the
  library there; the properties themselves hold for every choice of the library.
\<close>

definition ex_ids :: dataframe where
  "ex_ids = DataFrame_records [[(''id'', IntV 3)], [(''id'', IntV 7)], [(''id'', IntV 2)]]"

definition ex_fraction :: dataframe where
  "ex_fraction = DataFrame_records [[(''id'', FloatV (5 / 2))]]"

definition ex_infinite :: dataframe where
  "ex_infinite = DataFrame_records [[(''id'', IntV 1)], [(''id'', InfV True)]]"

definition ex_mixed :: dataframe where
  "ex_mixed = DataFrame_records
     [[(''id'', IntV 3)], [(''id'', StrV ''abc'')], [(''id'', NaN)], [(''id'', StrV ''7'')]]"

text \<open>The mask \<^verbatim>\<open>df["id"] == n\<close> of the two status handlers, row by row.\<close>

definition id_mask :: "dataframe \<Rightarrow> int \<Rightarrow> bool list" where
  "id_mask df n = map (\<lambda>r. cell_eq (cell r ''id'') (IntV n)) (rows df)"

definition digit_of :: "char \<Rightarrow> nat option" where
  "digit_of c = (if c \<in> set ''0123456789'' then Some (of_char c - 48) else None)"

fun read_nat :: "nat \<Rightarrow> string \<Rightarrow> nat option" where
  "read_nat acc [] = Some acc"
| "read_nat acc (c # cs) = (case digit_of c of None \<Rightarrow> None | Some d \<Rightarrow> read_nat (10 * acc + d) cs)"

definition read_decimal :: "string \<Rightarrow> xnum option" where
  "read_decimal s =
     (case s of [] \<Rightarrow> None
      | c # cs \<Rightarrow>
          if c = CHR ''-'' then (if cs = [] then None else map_option (\<lambda>n. Fin (- of_nat n)) (read_nat 0 cs))
          else map_option (\<lambda>n. Fin (of_nat n)) (read_nat 0 s))"

definition show_cell :: "cell \<Rightarrow> string" where
  "show_cell v =
     (case v of IntV i \<Rightarrow> str_int i
      | FloatV q \<Rightarrow> (case quotient_of q of (a, b) \<Rightarrow> str_int a @ ''/'' @ str_int b)
      | InfV b \<Rightarrow> (if b then ''inf'' else ''-inf'')
      | StrV s \<Rightarrow> s
      | BoolV b \<Rightarrow> (if b then ''True'' else ''False'')
      | NaN \<Rightarrow> [])"

definition csv_line :: "string list \<Rightarrow> string" where
  "csv_line xs = concat (map (\<lambda>x. x @ '','') (butlast xs)) @ last xs @ [CHR 0x0A]"

definition csv_plain :: "dataframe \<Rightarrow> string" where
  "csv_plain df =
     csv_line (columns df) @
     concat (map (\<lambda>r. csv_line (map (\<lambda>c. show_cell (cell r c)) (columns df))) (rows df))"

definition ex_lib :: lib where
  "ex_lib = \<lparr>to_csv = csv_plain,
            read_csv = (\<lambda>content. Inl (OtherError ''ParserError'')),
            str_num = read_decimal,
            str_float = (\<lambda>q. show_cell (FloatV q))\<rparr>"

definition ex_time :: datetime where
  "ex_time = \<lparr>year = 2025, month = 1, day = 2, hour = 3, minute = 4, second = 5\<rparr>"

text \<open>A session right after seeding: the seven seeded tables, their files, nothing cached.\<close>

definition ex_disk :: fs where
  "ex_disk =
     [F_USUARIOS \<mapsto> csv_plain seed_usuarios, F_ACTIVOS \<mapsto> csv_plain seed_activos,
      F_NOTIF \<mapsto> csv_plain (seed_notif ex_time ex_time), F_RONDAS_PLT \<mapsto> csv_plain seed_rondas,
      F_RONDAS_RUN \<mapsto> csv_plain seed_rondas_run, F_INCIDENTES \<mapsto> csv_plain (seed_inc ex_time),
      F_PTWOT \<mapsto> csv_plain (seed_ptw ex_time)]"

definition ex_session :: session where
  "ex_session =
     \<lparr>usuarios = seed_usuarios, activos = seed_activos, notifs = seed_notif ex_time ex_time,
      rondas_plt = seed_rondas, rondas_run = seed_rondas_run, incidentes = seed_inc ex_time,
      ptwot = seed_ptw ex_time, disk = ex_disk, st_cache = Map.empty, shown = []\<rparr>"

text \<open>A notifications table in which two rows carry the identifier 2, and a session on it.\<close>

definition ex_notif :: "int \<Rightarrow> string \<Rightarrow> string \<Rightarrow> string \<Rightarrow> pydict" where
  "ex_notif n estado cerrada evid =
     [(''id'', IntV n), (''ts_creacion'', StrV (now_iso ex_time)), (''tag'', StrV ''V-210''),
      (''titulo'', StrV ''Chequear V-210''), (''motivo'', StrV ''Lectura fuera de rango''),
      (''prioridad'', StrV ''P2''), (''estado'', StrV estado), (''asignado_a'', StrV ''Operario 1''),
      (''ts_recibida'', StrV []), (''ts_cerrada'', StrV cerrada), (''evidencia'', StrV evid)]"

definition ex_twice :: dataframe where
  "ex_twice = DataFrame_records
     [ex_notif 2 ''Pendiente'' [] [], ex_notif 2 ''Completada'' ''2024-12-31 23:59:59'' ''foto.jpg'']"

definition ex_session_twice :: session where
  "ex_session_twice = ex_session\<lparr>notifs := ex_twice\<rparr>"

section \<open>Properties\<close>

subsection \<open>Reading a column as numbers\<close>

lemma dropna_empty_iff: "dropna xs = [] \<longleftrightarrow> (\<forall>x \<in> set xs. x = None)"
  by (induction xs) (auto split: option.splits)

lemma set_dropna: "set (dropna xs) = {v. Some v \<in> set xs}"
  by (induction xs) (auto split: option.splits)

lemma dropna_append: "dropna (xs @ ys) = dropna xs @ dropna ys"
  by (induction xs) (auto split: option.splits)

lemma Fin_le_iff: "Fin a \<le> Fin b \<longleftrightarrow> a \<le> b"
  by (simp add: less_eq_xnum_def)

lemma Fin_less_iff: "Fin a < Fin b \<longleftrightarrow> a < b"
  by (auto simp add: less_xnum_def less_eq_xnum_def)

lemma max_Fin: "max (Fin a) (Fin b) = Fin (max a b)"
  by (simp add: max_def Fin_le_iff)

lemma le_PInf: "x \<le> PInf"
  by (simp add: less_eq_xnum_def split: xnum.splits)

lemma NInf_le: "NInf \<le> x"
  by (simp add: less_eq_xnum_def)

lemma series_max_eq:
  "series_max xs = (if dropna xs = [] then None else Some (Max (set (dropna xs))))"
proof (cases "dropna xs")
  case Nil
  then show ?thesis by (simp add: series_max_def)
next
  case (Cons q qs)
  have "fold max qs q = Max (set (q # qs))" by (rule Max.set_eq_fold [symmetric])
  with Cons show ?thesis by (simp add: series_max_def)
qed

lemma next_sequential_id_eq:
  "next_sequential_id f (Some df) c =
     (if df_empty df \<or> c \<notin> set (columns df) \<or> numeric_values f df c = [] then 1
      else (case Max (set (numeric_values f df c)) of Fin q \<Rightarrow> py_trunc q + 1 | _ \<Rightarrow> 1))"
  by (simp add: next_sequential_id_def get_column_def series_max_eq py_int_def
        numeric_values_def comp_def split: xnum.splits)

lemma py_trunc_of_int: "py_trunc (of_int k) = k"
  by (simp add: py_trunc_def)

lemma py_trunc_gt: "q < of_int (py_trunc q + 1)"
  unfolding py_trunc_def by (auto; linarith)

lemma cell_astype_inferred:
  "i < length rs \<Longrightarrow>
   cell (astype_inferred cs rs ! i) c =
     (if c \<in> set cs \<and> float64_cells (map (\<lambda>r. cell r c) rs)
      then to_float (cell (rs ! i) c) else cell (rs ! i) c)"
  by (simp add: astype_inferred_def cell_def to_float_def split: option.splits)

lemma length_astype_inferred: "length (astype_inferred cs rs) = length rs"
  by (simp add: astype_inferred_def)

lemma to_float_floating: "is_floating v \<Longrightarrow> to_float v = v"
  by (cases v) (simp_all add: is_floating_def to_float_def)

lemma astype_inferred_single: "astype_inferred cs [r] = [r]"
proof -
  have "map_option to_float (r c) = r c" if "float64_cells [cell r c]" for c
  proof (cases "r c")
    case None
    then show ?thesis by simp
  next
    case (Some v)
    with that have "is_floating v" by (simp add: float64_cells_def cell_def)
    with Some show ?thesis by (simp add: to_float_floating)
  qed
  then show ?thesis by (auto simp add: astype_inferred_def fun_eq_iff)
qed

lemma cell_map_of: "cell (map_of d) c = dict_get d c"
  by (simp add: cell_def dict_get_def)

lemma cell_fill_row: "cell (fill_row cs r) c = cell r c"
  by (simp add: cell_def fill_row_def)

lemma rows_DataFrame_records:
  "rows (DataFrame_records ds) =
     astype_inferred (columns (DataFrame_records ds))
       (map (\<lambda>d. fill_row (columns (DataFrame_records ds)) (map_of d)) ds)"
  by (simp add: DataFrame_records_def Let_def)

lemma length_rows_DataFrame_records: "length (rows (DataFrame_records ds)) = length ds"
  by (simp add: rows_DataFrame_records length_astype_inferred)

lemma to_float_NaN: "to_float NaN = NaN"
  by (simp add: to_float_def)

lemma cell_DataFrame_records:
  assumes "i < length ds"
  shows "cell (rows (DataFrame_records ds) ! i) c =
     (if float64_cells (map (\<lambda>d. dict_get d c) ds) then to_float (dict_get (ds ! i) c)
      else dict_get (ds ! i) c)"
proof -
  let ?cs = "columns (DataFrame_records ds)"
  have m: "map ((\<lambda>r. cell r c) \<circ> (\<lambda>d. fill_row ?cs (map_of d))) ds = map (\<lambda>d. dict_get d c) ds"
    by (simp add: cell_fill_row cell_map_of comp_def)
  have cs: "set ?cs = set (concat (map (map fst) ds))"
    by (simp add: DataFrame_records_def Let_def)
  show ?thesis
  proof (cases "c \<in> set ?cs")
    case True
    then show ?thesis
      using assms
      by (simp add: rows_DataFrame_records cell_astype_inferred m cell_fill_row cell_map_of)
  next
    case False
    have "map_of (ds ! i) c = None"
    proof (rule ccontr)
      assume "map_of (ds ! i) c \<noteq> None"
      then have "c \<in> fst ` set (ds ! i)" by (auto simp add: map_of_eq_None_iff)
      moreover have "ds ! i \<in> set ds" using assms by simp
      ultimately have "c \<in> set (concat (map (map fst) ds))" by auto
      with False cs show False by simp
    qed
    then have "dict_get (ds ! i) c = NaN" by (simp add: dict_get_def)
    with False show ?thesis
      using assms
      by (simp add: rows_DataFrame_records cell_astype_inferred cell_fill_row cell_map_of to_float_NaN)
  qed
qed

lemma columns_DataFrame_records_distinct:
  "distinct (concat (map (map fst) ds)) \<Longrightarrow> columns (DataFrame_records ds) = concat (map (map fst) ds)"
  by (simp add: DataFrame_records_def Let_def distinct_remdups_id)

lemma ex_ids_columns: "columns ex_ids = [''id'']"
  by (simp add: ex_ids_def DataFrame_records_def Let_def)

lemma ex_ids_unfold:
  "columns ex_ids = [''id''] \<and>
   rows ex_ids = [[''id'' \<mapsto> IntV 3], [''id'' \<mapsto> IntV 7], [''id'' \<mapsto> IntV 2]]"
  by (auto simp add: ex_ids_def DataFrame_records_def Let_def astype_inferred_def float64_cells_def
        is_floating_def is_number_def cell_def fill_row_def fun_eq_iff)

lemma numeric_values_ex_ids: "numeric_values f ex_ids ''id'' = [Fin 3, Fin 7, Fin 2]"
  by (simp add: numeric_values_def ex_ids_unfold cell_def to_numeric_cell_def cell_num_def)

text \<open>
  Claim C2. \<open>next_sequential_id\<close> answers 1 for no frame, an empty frame, a missing
  identifier column, or a column without any numeric value. Otherwise it answers the
  largest numeric value of the column plus 1 whenever that value is a whole number, as
  the integer identifiers of the store are: for the identifiers 3, 7, 2 it answers 8.
  The numeric values are those of the cells that pandas reads as a number; a text that
  is no number and a missing value take no part in the maximum and raise nothing. For
  values that are no identifiers of the store the code is exact as well: of a fractional
  maximum it takes the integer part (truncation toward zero, Python's \<open>int\<close>) before
  adding 1, and an infinite maximum makes \<open>int\<close> raise, which is answered with 1.
\<close>

theorem next_id_is_max_plus_one:
  "next_sequential_id f None c = 1 \<and>
   (df_empty df \<or> c \<notin> set (columns df) \<or> numeric_values f df c = [] \<longrightarrow>
      next_sequential_id f (Some df) c = 1) \<and>
   (\<not> df_empty df \<and> c \<in> set (columns df) \<and> numeric_values f df c \<noteq> [] \<longrightarrow>
      (\<forall>k. Max (set (numeric_values f df c)) = Fin (of_int k) \<longrightarrow>
         next_sequential_id f (Some df) c = k + 1) \<and>
      (\<forall>q. Max (set (numeric_values f df c)) = Fin q \<longrightarrow>
         next_sequential_id f (Some df) c = py_trunc q + 1) \<and>
      (Max (set (numeric_values f df c)) = PInf \<or> Max (set (numeric_values f df c)) = NInf \<longrightarrow>
         next_sequential_id f (Some df) c = 1)) \<and>
   numeric_values f df c = dropna (map (\<lambda>r. to_numeric_cell f (cell r c)) (rows df)) \<and>
   to_numeric_cell f NaN = None \<and>
   (\<forall>s. to_numeric_cell f (StrV s) = f s) \<and>
   (\<forall>i. to_numeric_cell f (IntV i) = Some (Fin (of_int i)))"
proof -
  have 1: "next_sequential_id f None c = 1"
    by (simp add: next_sequential_id_def)
  have 2: "numeric_values f df c = dropna (map (\<lambda>r. to_numeric_cell f (cell r c)) (rows df))"
    by (simp add: numeric_values_def)
  have 3: "to_numeric_cell f NaN = None \<and> (\<forall>s. to_numeric_cell f (StrV s) = f s) \<and>
           (\<forall>i. to_numeric_cell f (IntV i) = Some (Fin (of_int i)))"
    by (simp add: to_numeric_cell_def cell_num_def)
  show ?thesis
    using 1 2 3 by (simp add: next_sequential_id_eq py_trunc_of_int)
qed

lemma column_cells_DataFrame_records:
  "column_cells (DataFrame_records ds) c =
     (if float64_cells (map (\<lambda>d. dict_get d c) ds) then map (\<lambda>d. to_float (dict_get d c)) ds
      else map (\<lambda>d. dict_get d c) ds)"
  by (rule nth_equalityI)
     (simp_all add: column_cells_def length_rows_DataFrame_records cell_DataFrame_records)

lemma numeric_values_column_cells:
  "numeric_values f df c = dropna (map (to_numeric_cell f) (column_cells df c))"
  by (simp add: numeric_values_def column_cells_def comp_def)

lemma df_empty_column_cells:
  "columns df \<noteq> [] \<Longrightarrow> column_cells df c \<noteq> [] \<Longrightarrow> \<not> df_empty df"
  by (auto simp add: df_empty_def column_cells_def)

lemma ex_mixed_unfold:
  "columns ex_mixed = [''id''] \<and>
   column_cells ex_mixed ''id'' = [IntV 3, StrV ''abc'', NaN, StrV ''7'']"
  by (simp add: ex_mixed_def column_cells_DataFrame_records dict_get_def float64_cells_def
        is_number_def)
     (simp add: DataFrame_records_def Let_def)

lemma ex_fraction_unfold:
  "columns ex_fraction = [''id''] \<and> column_cells ex_fraction ''id'' = [FloatV (5 / 2)]"
  by (simp add: ex_fraction_def column_cells_DataFrame_records dict_get_def to_float_def)
     (simp add: DataFrame_records_def Let_def)

lemma ex_infinite_unfold:
  "columns ex_infinite = [''id''] \<and> column_cells ex_infinite ''id'' = [FloatV 1, InfV True]"
  by (simp add: ex_infinite_def column_cells_DataFrame_records dict_get_def to_float_def
        float64_cells_def is_number_def is_floating_def)
     (simp add: DataFrame_records_def Let_def)

lemma read_decimal_examples: "read_decimal ''abc'' = None \<and> read_decimal ''7'' = Some (Fin 7)"
  by (simp add: read_decimal_def digit_of_def)

theorem next_id_witness:
  "next_sequential_id (\<lambda>s. None) (Some ex_ids) ''id'' = 8 \<and>
   next_sequential_id (\<lambda>s. None) (Some DataFrame_empty) ''id'' = 1 \<and>
   next_sequential_id (\<lambda>s. None) (Some ex_ids) ''ident'' = 1 \<and>
   numeric_values read_decimal ex_mixed ''id'' = [Fin 3, Fin 7] \<and>
   next_sequential_id read_decimal (Some ex_mixed) ''id'' = 8 \<and>
   next_sequential_id (\<lambda>s. None) (Some ex_fraction) ''id'' = 3 \<and>
   next_sequential_id (\<lambda>s. None) (Some ex_infinite) ''id'' = 1"
proof -
  note t = next_id_is_max_plus_one
  have e: "\<not> df_empty ex_ids" "''id'' \<in> set (columns ex_ids)" "''ident'' \<notin> set (columns ex_ids)"
    "numeric_values (\<lambda>s. None) ex_ids ''id'' \<noteq> []"
    by (simp_all add: df_empty_def ex_ids_unfold numeric_values_ex_ids)
  have m: "Max (set (numeric_values (\<lambda>s. None) ex_ids ''id'')) = Fin (of_int 7)"
    by (simp add: numeric_values_ex_ids max_Fin)
  have "next_sequential_id (\<lambda>s. None) (Some ex_ids) ''id'' = 7 + 1"
    using t [of "\<lambda>s. None" "''id''" ex_ids] e m by blast
  then have 1: "next_sequential_id (\<lambda>s. None) (Some ex_ids) ''id'' = 8" by simp
  have "df_empty DataFrame_empty"
    by (simp add: df_empty_def DataFrame_empty_def)
  then have 2: "next_sequential_id (\<lambda>s. None) (Some DataFrame_empty) ''id'' = 1"
    using t [of "\<lambda>s. None" "''id''" DataFrame_empty] by blast
  have 3: "next_sequential_id (\<lambda>s. None) (Some ex_ids) ''ident'' = 1"
    using t [of "\<lambda>s. None" "''ident''" ex_ids] e by blast
  have nv: "numeric_values read_decimal ex_mixed ''id'' = [Fin 3, Fin 7]"
    by (simp add: numeric_values_column_cells ex_mixed_unfold to_numeric_cell_def cell_num_def
          read_decimal_examples)
  have em: "\<not> df_empty ex_mixed" "''id'' \<in> set (columns ex_mixed)"
    "numeric_values read_decimal ex_mixed ''id'' \<noteq> []"
    using df_empty_column_cells [of ex_mixed "''id''"] by (simp_all add: ex_mixed_unfold nv)
  have mm: "Max (set (numeric_values read_decimal ex_mixed ''id'')) = Fin (of_int 7)"
    by (simp add: nv max_Fin)
  have "next_sequential_id read_decimal (Some ex_mixed) ''id'' = 7 + 1"
    using t [of read_decimal "''id''" ex_mixed] em mm by blast
  then have 4: "next_sequential_id read_decimal (Some ex_mixed) ''id'' = 8" by simp
  have nf: "numeric_values (\<lambda>s. None) ex_fraction ''id'' = [Fin (5 / 2)]"
    by (simp add: numeric_values_column_cells ex_fraction_unfold to_numeric_cell_def cell_num_def)
  have ef: "\<not> df_empty ex_fraction" "''id'' \<in> set (columns ex_fraction)"
    "numeric_values (\<lambda>s. None) ex_fraction ''id'' \<noteq> []"
    using df_empty_column_cells [of ex_fraction "''id''"] by (simp_all add: ex_fraction_unfold nf)
  have mf: "Max (set (numeric_values (\<lambda>s. None) ex_fraction ''id'')) = Fin (5 / 2)"
    by (simp add: nf)
  have "next_sequential_id (\<lambda>s. None) (Some ex_fraction) ''id'' = py_trunc (5 / 2) + 1"
    using t [of "\<lambda>s. None" "''id''" ex_fraction] ef mf by blast
  moreover have "py_trunc (5 / 2) = 2"
    by (simp add: py_trunc_def floor_eq_iff)
  ultimately have 5: "next_sequential_id (\<lambda>s. None) (Some ex_fraction) ''id'' = 3" by simp
  have ni: "numeric_values (\<lambda>s. None) ex_infinite ''id'' = [Fin 1, PInf]"
    by (simp add: numeric_values_column_cells ex_infinite_unfold to_numeric_cell_def cell_num_def)
  have ei: "\<not> df_empty ex_infinite" "''id'' \<in> set (columns ex_infinite)"
    "numeric_values (\<lambda>s. None) ex_infinite ''id'' \<noteq> []"
    using df_empty_column_cells [of ex_infinite "''id''"] by (simp_all add: ex_infinite_unfold ni)
  have mi: "Max (set (numeric_values (\<lambda>s. None) ex_infinite ''id'')) = PInf"
    by (simp add: ni max_def le_PInf)
  have 6: "next_sequential_id (\<lambda>s. None) (Some ex_infinite) ''id'' = 1"
    using t [of "\<lambda>s. None" "''id''" ex_infinite] ei mi by blast
  show ?thesis
    using 1 2 3 nv 4 5 6 by simp
qed

subsection \<open>Appending a row\<close>

lemma fill_row_complete: "(\<forall>c \<in> set cs. r c \<noteq> None) \<Longrightarrow> fill_row cs r = r"
  by (auto simp add: fill_row_def fun_eq_iff)

lemma columns_pd_concat:
  "columns (pd_concat a b) = columns a @ filter (\<lambda>c. c \<notin> set (columns a)) (columns b)"
  by (simp add: pd_concat_def Let_def)

lemma rows_pd_concat:
  "rows (pd_concat a b) =
     astype_inferred (columns (pd_concat a b))
       (map (fill_row (columns (pd_concat a b))) (rows a @ rows b))"
  by (simp add: pd_concat_def Let_def)

lemma length_rows_pd_concat: "length (rows (pd_concat a b)) = length (rows a) + length (rows b)"
  by (simp add: rows_pd_concat length_astype_inferred)

lemma cells_fill_rows: "map ((\<lambda>r. cell r c) \<circ> fill_row cs) rs = map (\<lambda>r. cell r c) rs"
  by (simp add: cell_fill_row comp_def)

lemma cell_rows_pd_concat:
  assumes "i < length (rows a) + length (rows b)"
  shows "cell (rows (pd_concat a b) ! i) c =
     (if c \<in> set (columns (pd_concat a b)) \<and> float64_cells (column_cells a c @ column_cells b c)
      then to_float (cell ((rows a @ rows b) ! i) c) else cell ((rows a @ rows b) ! i) c)"
proof -
  let ?cs = "columns (pd_concat a b)"
  have "cell (rows (pd_concat a b) ! i) c =
     (if c \<in> set ?cs \<and> float64_cells (map (\<lambda>r. cell r c) (map (fill_row ?cs) (rows a @ rows b)))
      then to_float (cell (map (fill_row ?cs) (rows a @ rows b) ! i) c)
      else cell (map (fill_row ?cs) (rows a @ rows b) ! i) c)"
    unfolding rows_pd_concat using assms by (intro cell_astype_inferred) simp
  also have "map (\<lambda>r. cell r c) (map (fill_row ?cs) (rows a @ rows b)) = column_cells a c @ column_cells b c"
    unfolding map_map cells_fill_rows by (simp add: column_cells_def)
  also have "cell (map (fill_row ?cs) (rows a @ rows b) ! i) c = cell ((rows a @ rows b) ! i) c"
    using assms by (simp add: cell_fill_row del: map_append)
  finally show ?thesis .
qed

lemma cell_num_to_float: "cell_num (to_float v) = cell_num v"
  by (cases v) (simp_all add: to_float_def cell_num_def)

lemma to_numeric_cell_to_float: "to_numeric_cell f (to_float v) = to_numeric_cell f v"
  by (cases v) (simp_all add: to_float_def to_numeric_cell_def cell_num_def)

lemma cell_eq_to_float: "cell_eq (to_float a) b = cell_eq a b"
  by (cases a; cases b) (simp_all add: to_float_def cell_eq_def cell_num_def)

lemma to_float_cases: "to_float v = v \<or> (\<exists>i. v = IntV i \<and> to_float v = FloatV (of_int i))"
  by (cases v) (simp_all add: to_float_def)

lemma to_float_not_integer: "\<not> is_integer v \<Longrightarrow> to_float v = v"
  by (cases v) (simp_all add: to_float_def is_integer_def)

lemma first_seen_distinct: "distinct ks \<Longrightarrow> rev (remdups (rev ks)) = ks"
  by (simp add: distinct_remdups_id)

lemma rows_DataFrame_records_single:
  "rows (DataFrame_records [d]) = [fill_row (columns (DataFrame_records [d])) (map_of d)]"
  by (simp add: DataFrame_records_def Let_def astype_inferred_single)

lemma set_columns_DataFrame_records_single:
  "set (columns (DataFrame_records [d])) = fst ` set d"
  by (simp add: DataFrame_records_def Let_def)

lemma columns_DataFrame_records_single:
  "distinct (map fst d) \<Longrightarrow> columns (DataFrame_records [d]) = map fst d"
  by (simp add: DataFrame_records_def Let_def first_seen_distinct)

lemma cell_single_record: "cell (hd (rows (DataFrame_records [d]))) c = dict_get d c"
  by (simp add: rows_DataFrame_records_single cell_fill_row cell_map_of)

lemma column_cells_single: "column_cells (DataFrame_records [d]) c = [dict_get d c]"
  by (simp add: column_cells_def rows_DataFrame_records_single cell_fill_row cell_map_of)

lemma column_cells_pd_concat_raw:
  "map (\<lambda>r. cell r c) (rows a @ rows b) = column_cells a c @ column_cells b c"
  by (simp add: column_cells_def)

lemma length_rows_pd_concat_single:
  "length (rows (pd_concat df (DataFrame_records [d]))) = Suc (length (rows df))"
  by (simp add: length_rows_pd_concat length_rows_DataFrame_records)

lemma cell_old_pd_concat_single:
  assumes "i < length (rows df)"
  shows "cell (rows (pd_concat df (DataFrame_records [d])) ! i) c =
     (if widens df d c then to_float (cell (rows df ! i) c) else cell (rows df ! i) c)"
  using assms
  by (simp add: cell_rows_pd_concat length_rows_DataFrame_records
        column_cells_single widens_def nth_append)

lemma cell_last_pd_concat_single:
  "cell (last (rows (pd_concat df (DataFrame_records [d])))) c =
     (if widens df d c then to_float (dict_get d c) else dict_get d c)"
proof -
  let ?new = "pd_concat df (DataFrame_records [d])"
  have "last (rows ?new) = rows ?new ! length (rows df)"
    by (simp add: last_conv_nth length_rows_pd_concat_single
          flip: length_0_conv [of "rows ?new"])
  moreover have "(rows df @ rows (DataFrame_records [d])) ! length (rows df) =
      fill_row (columns (DataFrame_records [d])) (map_of d)"
    by (simp add: rows_DataFrame_records_single)
  ultimately show ?thesis
    by (simp add: cell_rows_pd_concat length_rows_DataFrame_records
          column_cells_single widens_def cell_fill_row cell_map_of)
qed

lemma row_astype_inferred_same:
  assumes "i < length rs"
    and "\<forall>c \<in> set cs. float64_cells (map (\<lambda>r. cell r c) rs) \<longrightarrow> \<not> is_integer (cell (rs ! i) c)"
  shows "astype_inferred cs rs ! i = rs ! i"
proof -
  have "map_option to_float ((rs ! i) c) = (rs ! i) c"
    if "c \<in> set cs" and "float64_cells (map (\<lambda>r. cell r c) rs)" for c
  proof (cases "(rs ! i) c")
    case None
    then show ?thesis by simp
  next
    case (Some v)
    with assms(2) that have "\<not> is_integer v" by (auto simp add: cell_def)
    with Some show ?thesis by (simp add: to_float_not_integer)
  qed
  then show ?thesis
    using assms(1) by (auto simp add: astype_inferred_def fun_eq_iff)
qed

lemma list_ex_nth: "i < length xs \<Longrightarrow> \<not> list_ex P xs \<Longrightarrow> \<not> P (xs ! i)"
  by (auto simp add: list_ex_iff)

lemma row_old_pd_concat_single:
  assumes "i < length (rows df)" and "fits df d"
    and "\<forall>c \<in> set (columns df) \<union> fst ` set d. (rows df ! i) c \<noteq> None"
  shows "rows (pd_concat df (DataFrame_records [d])) ! i = rows df ! i"
proof -
  let ?new = "pd_concat df (DataFrame_records [d])"
  let ?cs = "columns ?new"
  let ?raw = "map (fill_row ?cs) (rows df @ rows (DataFrame_records [d]))"
  have cs: "set ?cs = set (columns df) \<union> fst ` set d"
    by (auto simp add: columns_pd_concat set_columns_DataFrame_records_single)
  have i: "i < length ?raw" using assms(1) by simp
  have raw: "?raw ! i = rows df ! i"
    using assms(1,3) by (simp add: nth_append cs fill_row_complete)
  have "\<not> is_integer (cell (?raw ! i) c)"
    if c: "c \<in> set ?cs" and f: "float64_cells (map (\<lambda>r. cell r c) ?raw)" for c
  proof -
    have "map (\<lambda>r. cell r c) ?raw = column_cells df c @ [dict_get d c]"
      unfolding map_map cells_fill_rows column_cells_pd_concat_raw
      by (simp add: column_cells_single)
    with c f have w: "widens df d c" by (simp add: widens_def)
    with assms(2) c have "\<not> list_ex is_integer (column_cells df c @ [dict_get d c])"
      by (simp add: fits_def)
    then have "\<not> is_integer (column_cells df c ! i)"
      using assms(1) by (auto simp add: list_ex_iff column_cells_def)
    then show ?thesis unfolding raw using assms(1) by (simp add: column_cells_def)
  qed
  then have "astype_inferred ?cs ?raw ! i = ?raw ! i"
    using i by (intro row_astype_inferred_same) blast+
  then show ?thesis unfolding rows_pd_concat raw .
qed

text \<open>
  Claim C9. Appending a row to the frame a variable refers to builds a new object and
  leaves the input object, like every other object, as it was. The new frame has the
  columns of the input followed by the new keys of the row, and one row more: its first
  rows are the rows of the input in their order, the new row is last. A cell of these
  rows is the cell of the input, respectively of the row, except where the column has
  been widened to float64: there an integer is held as the float of the same value, and
  nothing else differs. With a row that fits the frame (no integer comes to stand in a
  widened column, as with every row that gives the integer columns integers) every cell
  reads exactly as in the input and in the row, and the first rows are the very rows of
  the input when these have a value in every column.
\<close>

theorem append_keeps_rows_and_input:
  assumes "ref < length h"
  shows "\<exists>h'. append_row h ref d = Inr (length h, h') \<and>
           length h' = Suc (length h) \<and>
           (\<forall>r < length h. h' ! r = h ! r) \<and>
           columns (h' ! length h) =
             columns (h ! ref) @ filter (\<lambda>c. c \<notin> set (columns (h ! ref))) (columns (DataFrame_records [d])) \<and>
           length (rows (h' ! length h)) = length (rows (h ! ref)) + 1 \<and>
           (\<forall>i < length (rows (h ! ref)). \<forall>c.
              cell (rows (h' ! length h) ! i) c =
                (if widens (h ! ref) d c then to_float (cell (rows (h ! ref) ! i) c)
                 else cell (rows (h ! ref) ! i) c)) \<and>
           (\<forall>c. cell (last (rows (h' ! length h))) c =
                (if widens (h ! ref) d c then to_float (dict_get d c) else dict_get d c)) \<and>
           (\<forall>v. to_float v = v \<or> (\<exists>i. v = IntV i \<and> to_float v = FloatV (of_int i))) \<and>
           (fits (h ! ref) d \<longrightarrow>
              (\<forall>i < length (rows (h ! ref)). \<forall>c.
                 cell (rows (h' ! length h) ! i) c = cell (rows (h ! ref) ! i) c) \<and>
              (\<forall>c. cell (last (rows (h' ! length h))) c = dict_get d c) \<and>
              ((\<forall>r \<in> set (rows (h ! ref)). \<forall>c \<in> set (columns (h ! ref)) \<union> fst ` set d. r c \<noteq> None) \<longrightarrow>
                 take (length (rows (h ! ref))) (rows (h' ! length h)) = rows (h ! ref)))"
proof -
  let ?df = "h ! ref" and ?new = "pd_concat (h ! ref) (DataFrame_records [d])"
  let ?h' = "h @ [?new]"
  have 1: "append_row h ref d = Inr (length h, ?h')"
    using assms by (simp add: append_row_def)
  have 2: "\<forall>r < length h. ?h' ! r = h ! r"
    by (simp add: nth_append)
  have 3: "columns ?new =
      columns ?df @ filter (\<lambda>c. c \<notin> set (columns ?df)) (columns (DataFrame_records [d]))"
    by (rule columns_pd_concat)
  have 4: "length (rows ?new) = length (rows ?df) + 1"
    by (simp add: length_rows_pd_concat_single)
  have 5: "\<forall>i < length (rows ?df). \<forall>c. cell (rows ?new ! i) c =
      (if widens ?df d c then to_float (cell (rows ?df ! i) c) else cell (rows ?df ! i) c)"
    by (simp add: cell_old_pd_concat_single)
  have 6: "\<forall>c. cell (last (rows ?new)) c =
      (if widens ?df d c then to_float (dict_get d c) else dict_get d c)"
    by (simp add: cell_last_pd_concat_single)
  have 7: "\<forall>v. to_float v = v \<or> (\<exists>i. v = IntV i \<and> to_float v = FloatV (of_int i))"
    using to_float_cases by blast
  have w: "to_float (cell (rows ?df ! i) c) = cell (rows ?df ! i) c"
    if "fits ?df d" "widens ?df d c" "i < length (rows ?df)" for i c
  proof -
    from that(1,2) have "\<not> list_ex is_integer (column_cells ?df c @ [dict_get d c])"
      by (simp add: fits_def widens_def)
    then have "\<not> is_integer (cell (rows ?df ! i) c)"
      using that(3) by (auto simp add: list_ex_iff column_cells_def)
    then show ?thesis by (rule to_float_not_integer)
  qed
  have wl: "to_float (dict_get d c) = dict_get d c" if "fits ?df d" "widens ?df d c" for c
  proof -
    from that have "\<not> list_ex is_integer (column_cells ?df c @ [dict_get d c])"
      by (simp add: fits_def widens_def)
    then have "\<not> is_integer (dict_get d c)" by simp
    then show ?thesis by (rule to_float_not_integer)
  qed
  have 8: "\<forall>i < length (rows ?df). \<forall>c. cell (rows ?new ! i) c = cell (rows ?df ! i) c"
    if "fits ?df d"
    using w [OF that] by (simp add: cell_old_pd_concat_single)
  have 9: "\<forall>c. cell (last (rows ?new)) c = dict_get d c" if "fits ?df d"
    using wl [OF that] by (simp add: cell_last_pd_concat_single)
  have 10: "take (length (rows ?df)) (rows ?new) = rows ?df"
    if f: "fits ?df d"
      and c: "\<forall>r \<in> set (rows ?df). \<forall>c \<in> set (columns ?df) \<union> fst ` set d. r c \<noteq> None"
  proof (rule nth_equalityI)
    show "length (take (length (rows ?df)) (rows ?new)) = length (rows ?df)"
      by (simp add: 4)
  next
    fix i assume "i < length (take (length (rows ?df)) (rows ?new))"
    then have i: "i < length (rows ?df)" by simp
    then have "\<forall>c \<in> set (columns ?df) \<union> fst ` set d. (rows ?df ! i) c \<noteq> None"
      using c by simp
    from row_old_pd_concat_single [OF i f this] i
    show "take (length (rows ?df)) (rows ?new) ! i = rows ?df ! i" by simp
  qed
  have 11: "fits ?df d \<longrightarrow>
      (\<forall>i < length (rows ?df). \<forall>c. cell (rows ?new ! i) c = cell (rows ?df ! i) c) \<and>
      (\<forall>c. cell (last (rows ?new)) c = dict_get d c) \<and>
      ((\<forall>r \<in> set (rows ?df). \<forall>c \<in> set (columns ?df) \<union> fst ` set d. r c \<noteq> None) \<longrightarrow>
         take (length (rows ?df)) (rows ?new) = rows ?df)"
    using 8 9 10 by blast
  show ?thesis
    by (intro exI [of _ ?h']) (use 1 2 3 4 5 6 7 11 in simp)
qed

lemma column_cells_ex_ids: "column_cells ex_ids c = (if c = ''id'' then [IntV 3, IntV 7, IntV 2] else [NaN, NaN, NaN])"
  by (simp add: column_cells_def ex_ids_unfold cell_def)

lemma fits_ex_ids: "fits ex_ids [(''id'', IntV 8)]"
  by (simp add: fits_def widens_def columns_pd_concat ex_ids_unfold
        columns_DataFrame_records_single column_cells_ex_ids dict_get_def
        float64_cells_def is_floating_def)

lemma widens_ex_ids: "widens ex_ids [(''nota'', StrV ''x'')] ''id''"
  by (simp add: widens_def columns_pd_concat ex_ids_unfold
        columns_DataFrame_records_single column_cells_ex_ids dict_get_def
        float64_cells_def is_floating_def is_number_def)

theorem append_witness:
  "(\<exists>h'. append_row [ex_ids] 0 [(''id'', IntV 8)] = Inr (1, h') \<and>
          h' ! 0 = ex_ids \<and> columns (h' ! 1) = [''id''] \<and> length (rows (h' ! 1)) = 4 \<and>
          cell (last (rows (h' ! 1))) ''id'' = IntV 8 \<and>
          take 3 (rows (h' ! 1)) = rows ex_ids) \<and>
   (\<exists>h'. append_row [ex_ids] 0 [(''nota'', StrV ''x'')] = Inr (1, h') \<and>
          h' ! 0 = ex_ids \<and> columns (h' ! 1) = [''id'', ''nota''] \<and> length (rows (h' ! 1)) = 4 \<and>
          cell (rows (h' ! 1) ! 0) ''id'' = FloatV 3 \<and>
          cell (last (rows (h' ! 1))) ''id'' = NaN)"
proof -
  have a: "\<exists>h'. append_row [ex_ids] 0 [(''id'', IntV 8)] = Inr (1, h') \<and>
          h' ! 0 = ex_ids \<and> columns (h' ! 1) = [''id''] \<and> length (rows (h' ! 1)) = 4 \<and>
          cell (last (rows (h' ! 1))) ''id'' = IntV 8 \<and>
          take 3 (rows (h' ! 1)) = rows ex_ids"
    using append_keeps_rows_and_input [of 0 "[ex_ids]" "[(''id'', IntV 8)]"] fits_ex_ids
    by (auto simp add: ex_ids_unfold dict_get_def eval_nat_numeral columns_DataFrame_records_single)
  have b: "\<exists>h'. append_row [ex_ids] 0 [(''nota'', StrV ''x'')] = Inr (1, h') \<and>
          h' ! 0 = ex_ids \<and> columns (h' ! 1) = [''id'', ''nota''] \<and> length (rows (h' ! 1)) = 4 \<and>
          cell (rows (h' ! 1) ! 0) ''id'' = FloatV 3 \<and>
          cell (last (rows (h' ! 1))) ''id'' = NaN"
    using append_keeps_rows_and_input [of 0 "[ex_ids]" "[(''nota'', StrV ''x'')]"] widens_ex_ids
    by (auto simp add: ex_ids_unfold dict_get_def eval_nat_numeral columns_DataFrame_records_single
          cell_def to_float_def)
  show ?thesis using a b by blast
qed

subsection \<open>Assignment through a mask, saving, and the status handlers\<close>

lemma length_rows_loc_set:
  "length msk = length (rows df) \<Longrightarrow> length (rows (loc_set df msk col v)) = length (rows df)"
  by (simp add: loc_set_def)

lemma cell_rows_loc_set:
  "length msk = length (rows df) \<Longrightarrow> i < length (rows df) \<Longrightarrow>
   cell (rows (loc_set df msk col v) ! i) c =
     (if msk ! i \<and> c = col then StrV v else cell (rows df ! i) c)"
  by (simp add: loc_set_def cell_fill_row) (simp add: cell_def)

lemma columns_loc_set:
  "col \<in> set (columns df) \<Longrightarrow> columns (loc_set df msk col v) = columns df"
  by (simp add: loc_set_def)

lemma set_columns_loc_set:
  "set (columns (loc_set df msk col v)) = insert col (set (columns df))"
  by (auto simp add: loc_set_def)

lemma length_rows_cambio_estado:
  "length msk = length (rows df) \<Longrightarrow>
   length (rows (cambio_estado df msk ne ev t)) = length (rows df)"
  by (simp add: cambio_estado_def Let_def length_rows_loc_set)

lemma cell_rows_cambio_estado:
  assumes "length msk = length (rows df)" and "i < length (rows df)"
  shows "cell (rows (cambio_estado df msk ne ev t) ! i) c =
     (if msk ! i then
        (if c = ''evidencia'' \<and> ev \<noteq> [] then StrV ev
         else if c = ''ts_cerrada'' \<and> ne = ''Completada'' then StrV (now_iso t)
         else if c = ''ts_recibida'' \<and> ne = ''Recibida'' then StrV (now_iso t)
         else if c = ''estado'' then StrV ne
         else cell (rows df ! i) c)
      else cell (rows df ! i) c)"
  using assms
  by (simp add: cambio_estado_def Let_def length_rows_loc_set cell_rows_loc_set)

lemma columns_cambio_estado:
  "set [''estado'', ''ts_recibida'', ''ts_cerrada'', ''evidencia''] \<subseteq> set (columns df) \<Longrightarrow>
   columns (cambio_estado df msk ne ev t) = columns df"
  by (simp add: cambio_estado_def Let_def columns_loc_set)

lemma cell_rows_cambio_ptw:
  assumes "length msk = length (rows df)" and "i < length (rows df)"
  shows "cell (rows (cambio_ptw df msk nuevo ap t) ! i) c =
     (if msk ! i then
        (if c = ''ts_cierre'' \<and> nuevo = ''Cerrado'' then StrV (now_iso t)
         else if c = ''aprob_hse'' then StrV ap
         else if c = ''estado'' then StrV nuevo
         else cell (rows df ! i) c)
      else cell (rows df ! i) c)"
  using assms
  by (simp add: cambio_ptw_def Let_def length_rows_loc_set cell_rows_loc_set)

lemma tmp_path_neq: "tmp_path p \<noteq> p"
  by (simp add: tmp_path_def)

lemma save_csv_in_eq:
  "save_csv_in may w df path files =
     (if may (tmp_path path) \<and> may path
      then Inr ((files(tmp_path path := None))(path \<mapsto> w df))
      else Inl (OSError ''PermissionError''))"
  by (simp add: save_csv_in_def save_csv_ops_def path_replace_def Let_def bind_exn_def)

lemma save_csv_eq:
  "save_csv w df path files = Inr ((files(tmp_path path := None))(path \<mapsto> w df))"
  by (simp add: save_csv_def save_csv_in_eq)

lemma now_iso_nonempty: "now_iso t \<noteq> []"
  by (simp add: now_iso_def pad4_def)

lemma length_now_iso: "length (now_iso t) = 19"
  by (simp add: now_iso_def pad4_def pad2_def)

lemma aplicar_cambio_eq:
  assumes "''id'' \<in> set (columns (notifs s))"
  shows "aplicar_cambio L t n ne ev s =
     (if pd_any (id_mask (notifs s) n) then
        Inr (s\<lparr>notifs := cambio_estado (notifs s) (id_mask (notifs s) n) ne ev t,
               disk := (disk s)(tmp_path F_NOTIF := None,
                  F_NOTIF \<mapsto> to_csv L (cambio_estado (notifs s) (id_mask (notifs s) n) ne ev t)),
               st_cache := Map.empty,
               shown := shown s @ [Success ''Estado actualizado.'']\<rparr>)
      else Inr (s\<lparr>shown := shown s @ [Warning ''ID no encontrado.'']\<rparr>))"
  using assms
  by (simp add: aplicar_cambio_def get_column_def bind_exn_def id_mask_def commit_def
        save_csv_eq Let_def comp_def)

lemma aplicar_ptw_eq:
  assumes "''id'' \<in> set (columns (ptwot s))"
  shows "aplicar_ptw L t n nuevo ap s =
     (if pd_any (id_mask (ptwot s) n) then
        Inr (s\<lparr>ptwot := cambio_ptw (ptwot s) (id_mask (ptwot s) n) nuevo ap t,
               disk := (disk s)(tmp_path F_PTWOT := None,
                  F_PTWOT \<mapsto> to_csv L (cambio_ptw (ptwot s) (id_mask (ptwot s) n) nuevo ap t)),
               st_cache := Map.empty,
               shown := shown s @ [Success ''PTW actualizado.'']\<rparr>)
      else Inr (s\<lparr>shown := shown s @ [Warning ''ID no encontrado.'']\<rparr>))"
  using assms
  by (simp add: aplicar_ptw_def get_column_def bind_exn_def id_mask_def commit_def
        save_csv_eq Let_def comp_def)

lemma pd_any_id_mask:
  "pd_any (id_mask df n) \<longleftrightarrow> (\<exists>r \<in> set (rows df). cell_eq (cell r ''id'') (IntV n))"
  by (auto simp add: pd_any_def id_mask_def)

subsection \<open>The status handlers\<close>

lemma length_id_mask: "length (id_mask df n) = length (rows df)"
  by (simp add: id_mask_def)

lemma nth_id_mask:
  "i < length (rows df) \<Longrightarrow> id_mask df n ! i = cell_eq (cell (rows df ! i) ''id'') (IntV n)"
  by (simp add: id_mask_def)

lemma pd_any_id_maskI:
  "i < length (rows df) \<Longrightarrow> cell_eq (cell (rows df ! i) ''id'') (IntV n) \<Longrightarrow> pd_any (id_mask df n)"
  by (auto simp add: pd_any_id_mask)


lemma notif_columns:
  "columns (seed_notif t1 t2) =
     [''id'', ''ts_creacion'', ''tag'', ''titulo'', ''motivo'', ''prioridad'', ''estado'',
      ''asignado_a'', ''ts_recibida'', ''ts_cerrada'', ''evidencia'']"
  by (simp add: seed_notif_def DataFrame_records_def Let_def)

lemma notif_rows_length: "length (rows (seed_notif t1 t2)) = 2"
  by (simp add: seed_notif_def length_rows_DataFrame_records)

lemma notif_cells:
  "cell (rows (seed_notif t1 t2) ! 0) ''id'' = IntV 1 \<and>
   cell (rows (seed_notif t1 t2) ! Suc 0) ''id'' = IntV 2 \<and>
   cell (rows (seed_notif t1 t2) ! 0) ''estado'' = StrV ''Pendiente'' \<and>
   cell (rows (seed_notif t1 t2) ! Suc 0) ''estado'' = StrV ''Pendiente'' \<and>
   cell (rows (seed_notif t1 t2) ! Suc 0) ''prioridad'' = StrV ''P2''"
  by (simp add: seed_notif_def cell_DataFrame_records dict_get_def float64_cells_def
        is_number_def is_floating_def to_float_def)

lemma now_iso_ex_time: "now_iso ex_time = ''2025-01-02 03:04:05''"
  by (simp add: now_iso_def ex_time_def pad4_def pad2_def digit_char_def)

lemma cell_eq_IntV: "cell_eq (IntV a) (IntV b) \<longleftrightarrow> a = b"
  by (simp add: cell_eq_def cell_num_def)

lemma twice_columns:
  "columns ex_twice =
     [''id'', ''ts_creacion'', ''tag'', ''titulo'', ''motivo'', ''prioridad'', ''estado'',
      ''asignado_a'', ''ts_recibida'', ''ts_cerrada'', ''evidencia'']"
  by (simp add: ex_twice_def ex_notif_def DataFrame_records_def Let_def)

lemma twice_rows_length: "length (rows ex_twice) = 2"
  by (simp add: ex_twice_def length_rows_DataFrame_records)

lemma twice_cells:
  "cell (rows ex_twice ! 0) ''id'' = IntV 2 \<and>
   cell (rows ex_twice ! Suc 0) ''id'' = IntV 2 \<and>
   cell (rows ex_twice ! 0) ''estado'' = StrV ''Pendiente'' \<and>
   cell (rows ex_twice ! Suc 0) ''estado'' = StrV ''Completada'' \<and>
   cell (rows ex_twice ! Suc 0) ''ts_cerrada'' = StrV ''2024-12-31 23:59:59'' \<and>
   cell (rows ex_twice ! Suc 0) ''evidencia'' = StrV ''foto.jpg''"
  by (simp add: ex_twice_def ex_notif_def cell_DataFrame_records dict_get_def float64_cells_def
        is_number_def is_floating_def to_float_def)

lemma notifs_ex_session_twice: "notifs ex_session_twice = ex_twice"
  by (simp add: ex_session_twice_def)

lemma ptw_columns:
  "columns (seed_ptw t) =
     [''id'', ''ts_solicitud'', ''tipo'', ''solicitante'', ''area'', ''estado'', ''aprob_hse'',
      ''ts_cierre'', ''adjuntos'']"
  by (simp add: seed_ptw_def DataFrame_records_def Let_def)

lemma ptw_ids: "map (\<lambda>r. cell r ''id'') (rows (seed_ptw t)) = [IntV 1]"
  using column_cells_DataFrame_records [unfolded column_cells_def]
  by (simp add: seed_ptw_def dict_get_def float64_cells_def is_floating_def)

lemma notif_ids: "map (\<lambda>r. cell r ''id'') (rows (seed_notif t1 t2)) = [IntV 1, IntV 2]"
  using column_cells_DataFrame_records [unfolded column_cells_def]
  by (simp add: seed_notif_def dict_get_def float64_cells_def is_floating_def)

lemma row_loc_set_unselected:
  "length msk = length (rows df) \<Longrightarrow> i < length (rows df) \<Longrightarrow> \<not> msk ! i \<Longrightarrow>
   (rows df ! i) col \<noteq> None \<Longrightarrow> rows (loc_set df msk col v) ! i = rows df ! i"
  by (auto simp add: loc_set_def fill_row_def fun_eq_iff)

lemma row_cambio_estado_unselected:
  assumes "length msk = length (rows df)" and "i < length (rows df)" and "\<not> msk ! i"
    and "\<forall>c \<in> {''estado'', ''ts_recibida'', ''ts_cerrada'', ''evidencia''}. (rows df ! i) c \<noteq> None"
  shows "rows (cambio_estado df msk ne ev t) ! i = rows df ! i"
  using assms
  by (simp add: cambio_estado_def Let_def length_rows_loc_set row_loc_set_unselected)

lemma columns_cambio_estado_recibida:
  "set [''estado'', ''ts_recibida'', ''evidencia''] \<subseteq> set (columns df) \<Longrightarrow>
   columns (cambio_estado df msk ''Recibida'' ev t) = columns df"
  by (simp add: cambio_estado_def Let_def columns_loc_set)

text \<open>
  Claim C3. On a notifications table with an identifier column in which exactly one row
  carries the identifier \<open>n\<close> (identifiers are unique in the store), the button with the
  new status \<^verbatim>\<open>Recibida\<close> succeeds, reports the update and saves the table; that row gets
  the status \<^verbatim>\<open>Recibida\<close> and the clock's text, which is never empty, as its
  received-timestamp, and every other field of it reads as before; every other row reads
  as before in every column, and is the very same row when it has the status, timestamp
  and evidence columns. The table keeps its length and, having the columns written to, its
  columns. This holds whatever the status of the row was, in particular for a pending
  one. The evidence text is an input of the same button: when one is given it is stored
  in the evidence field of that row, and with none (the transition of the claim) the
  evidence field is among the fields that read as before.
\<close>

theorem status_received_updates_that_row:
  assumes "''id'' \<in> set (columns (notifs s))"
    and "i < length (rows (notifs s))"
    and "cell_eq (cell (rows (notifs s) ! i) ''id'') (IntV n)"
    and "\<forall>j < length (rows (notifs s)). j \<noteq> i \<longrightarrow>
           \<not> cell_eq (cell (rows (notifs s) ! j) ''id'') (IntV n)"
  shows "\<exists>s'. aplicar_cambio L t n ''Recibida'' ev s = Inr s' \<and>
           shown s' = shown s @ [Success ''Estado actualizado.''] \<and>
           disk s' F_NOTIF = Some (to_csv L (notifs s')) \<and>
           length (rows (notifs s')) = length (rows (notifs s)) \<and>
           (set [''estado'', ''ts_recibida'', ''evidencia''] \<subseteq> set (columns (notifs s)) \<longrightarrow>
              columns (notifs s') = columns (notifs s)) \<and>
           cell (rows (notifs s') ! i) ''estado'' = StrV ''Recibida'' \<and>
           cell (rows (notifs s') ! i) ''ts_recibida'' = StrV (now_iso t) \<and>
           now_iso t \<noteq> [] \<and>
           (\<forall>c. c \<noteq> ''estado'' \<and> c \<noteq> ''ts_recibida'' \<and> (c = ''evidencia'' \<longrightarrow> ev = []) \<longrightarrow>
              cell (rows (notifs s') ! i) c = cell (rows (notifs s) ! i) c) \<and>
           (ev \<noteq> [] \<longrightarrow> cell (rows (notifs s') ! i) ''evidencia'' = StrV ev) \<and>
           (\<forall>j < length (rows (notifs s)). j \<noteq> i \<longrightarrow>
              (\<forall>c. cell (rows (notifs s') ! j) c = cell (rows (notifs s) ! j) c) \<and>
              ((\<forall>c \<in> {''estado'', ''ts_recibida'', ''ts_cerrada'', ''evidencia''}.
                   (rows (notifs s) ! j) c \<noteq> None) \<longrightarrow>
                 rows (notifs s') ! j = rows (notifs s) ! j))"
proof -
  let ?df = "notifs s"
  let ?m = "id_mask ?df n"
  let ?df' = "cambio_estado ?df ?m ''Recibida'' ev t"
  let ?s' = "s\<lparr>notifs := ?df',
               disk := (disk s)(tmp_path F_NOTIF := None, F_NOTIF \<mapsto> to_csv L ?df'),
               st_cache := Map.empty,
               shown := shown s @ [Success ''Estado actualizado.'']\<rparr>"
  have found: "pd_any ?m"
    using assms(2,3) by (rule pd_any_id_maskI)
  have run: "aplicar_cambio L t n ''Recibida'' ev s = Inr ?s'"
    using found by (simp add: aplicar_cambio_eq [OF assms(1)])
  have len: "length (rows ?df') = length (rows ?df)"
    by (simp add: length_rows_cambio_estado length_id_mask)
  have cols: "columns ?df' = columns ?df"
    if "set [''estado'', ''ts_recibida'', ''evidencia''] \<subseteq> set (columns ?df)"
    using that by (rule columns_cambio_estado_recibida)
  have mi: "?m ! i" and mj: "\<not> ?m ! j" if "j < length (rows ?df)" "j \<noteq> i" for j
    using assms(2,3,4) that by (simp_all add: nth_id_mask)
  have sel: "cell (rows ?df' ! i) c =
      (if c = ''evidencia'' \<and> ev \<noteq> [] then StrV ev
       else if c = ''ts_recibida'' then StrV (now_iso t)
       else if c = ''estado'' then StrV ''Recibida''
       else cell (rows ?df ! i) c)" for c
    using assms(2,3) by (simp add: cell_rows_cambio_estado length_id_mask nth_id_mask)
  have other: "cell (rows ?df' ! j) c = cell (rows ?df ! j) c"
    if "j < length (rows ?df)" "j \<noteq> i" for j c
    using that mj [OF that] by (simp add: cell_rows_cambio_estado length_id_mask)
  have same: "rows ?df' ! j = rows ?df ! j"
    if "j < length (rows ?df)" "j \<noteq> i"
      and "\<forall>c \<in> {''estado'', ''ts_recibida'', ''ts_cerrada'', ''evidencia''}. (rows ?df ! j) c \<noteq> None"
    for j
    using that(1) mj [OF that(1,2)] that(3)
    by (intro row_cambio_estado_unselected) (simp_all add: length_id_mask)
  have rest: "\<forall>j < length (rows ?df). j \<noteq> i \<longrightarrow>
              (\<forall>c. cell (rows ?df' ! j) c = cell (rows ?df ! j) c) \<and>
              ((\<forall>c \<in> {''estado'', ''ts_recibida'', ''ts_cerrada'', ''evidencia''}.
                   (rows ?df ! j) c \<noteq> None) \<longrightarrow>
                 rows ?df' ! j = rows ?df ! j)"
    using other same by blast
  show ?thesis
    by (intro exI [of _ ?s']) (use run len cols rest in \<open>simp add: sel now_iso_nonempty\<close>)
qed

lemma row_defined_DataFrame_records:
  assumes "i < length ds" and "c \<in> set (columns (DataFrame_records ds))"
  shows "(rows (DataFrame_records ds) ! i) c \<noteq> None"
proof -
  let ?cs = "columns (DataFrame_records ds)"
  have "fill_row ?cs (map_of (ds ! i)) c \<noteq> None"
    using assms(2) by (simp add: fill_row_def)
  then show ?thesis
    using assms(1) by (simp add: rows_DataFrame_records astype_inferred_def)
qed

lemma seed_notif_row_complete:
  "\<forall>c \<in> {''estado'', ''ts_recibida'', ''ts_cerrada'', ''evidencia''}.
     (rows (seed_notif t1 t2) ! 0) c \<noteq> None"
proof
  fix c assume "c \<in> {''estado'', ''ts_recibida'', ''ts_cerrada'', ''evidencia''}"
  then have "c \<in> set (columns (seed_notif t1 t2))"
    by (auto simp add: notif_columns)
  then show "(rows (seed_notif t1 t2) ! 0) c \<noteq> None"
    unfolding seed_notif_def by (intro row_defined_DataFrame_records) simp_all
qed

theorem status_received_witness:
  "\<exists>s'. aplicar_cambio ex_lib ex_time 2 ''Recibida'' [] ex_session = Inr s' \<and>
         length (rows (notifs s')) = 2 \<and>
         cell (rows (notifs s') ! 1) ''estado'' = StrV ''Recibida'' \<and>
         cell (rows (notifs s') ! 1) ''ts_recibida'' = StrV ''2025-01-02 03:04:05'' \<and>
         cell (rows (notifs s') ! 1) ''prioridad'' = StrV ''P2'' \<and>
         rows (notifs s') ! 0 = rows (notifs ex_session) ! 0"
proof -
  have n: "notifs ex_session = seed_notif ex_time ex_time"
    by (simp add: ex_session_def)
  have a1: "''id'' \<in> set (columns (notifs ex_session))"
    by (simp add: n notif_columns)
  have a2: "1 < length (rows (notifs ex_session))"
    by (simp add: n notif_rows_length)
  have a3: "cell_eq (cell (rows (notifs ex_session) ! 1) ''id'') (IntV 2)"
    by (simp add: n notif_cells cell_eq_IntV)
  have a4: "\<forall>j < length (rows (notifs ex_session)). j \<noteq> 1 \<longrightarrow>
              \<not> cell_eq (cell (rows (notifs ex_session) ! j) ''id'') (IntV 2)"
    by (simp add: n notif_rows_length notif_cells cell_eq_IntV less_Suc_eq eval_nat_numeral)
  from status_received_updates_that_row [OF a1 a2 a3 a4, of ex_lib ex_time "[]"]
  obtain s' where
    run: "aplicar_cambio ex_lib ex_time 2 ''Recibida'' [] ex_session = Inr s'" and
    len: "length (rows (notifs s')) = length (rows (notifs ex_session))" and
    e: "cell (rows (notifs s') ! 1) ''estado'' = StrV ''Recibida''" and
    ts: "cell (rows (notifs s') ! 1) ''ts_recibida'' = StrV (now_iso ex_time)" and
    keep: "\<forall>c. c \<noteq> ''estado'' \<and> c \<noteq> ''ts_recibida'' \<and> (c = ''evidencia'' \<longrightarrow> ([] :: string) = []) \<longrightarrow>
              cell (rows (notifs s') ! 1) c = cell (rows (notifs ex_session) ! 1) c" and
    rest: "\<forall>j < length (rows (notifs ex_session)). j \<noteq> 1 \<longrightarrow>
              (\<forall>c. cell (rows (notifs s') ! j) c = cell (rows (notifs ex_session) ! j) c) \<and>
              ((\<forall>c \<in> {''estado'', ''ts_recibida'', ''ts_cerrada'', ''evidencia''}.
                   (rows (notifs ex_session) ! j) c \<noteq> None) \<longrightarrow>
                 rows (notifs s') ! j = rows (notifs ex_session) ! j)"
    by blast
  have p: "cell (rows (notifs s') ! 1) ''prioridad'' = StrV ''P2''"
    using keep [rule_format, of "''prioridad''"] by (simp add: n notif_cells)
  have "\<forall>c \<in> {''estado'', ''ts_recibida'', ''ts_cerrada'', ''evidencia''}.
          (rows (notifs ex_session) ! 0) c \<noteq> None"
    unfolding n by (rule seed_notif_row_complete)
  moreover have "0 < length (rows (notifs ex_session))"
    by (simp add: n notif_rows_length)
  ultimately have r0: "rows (notifs s') ! 0 = rows (notifs ex_session) ! 0"
    using rest [rule_format, of 0] by simp
  show ?thesis
    using run len e ts p r0 by (simp add: n notif_rows_length now_iso_ex_time)
qed

text \<open>
  Claim C4. When no row carries the requested identifier, the status handler of the
  notifications and the one of the permits both end normally with the session as it
  was (tables, data directory and cache) and the one new notice
  \<^verbatim>\<open>ID no encontrado.\<close>; nothing is saved. A handler is reached only on a table that has
  its identifier column, since the page reads that column to draw the number input.
\<close>

theorem unknown_id_changes_nothing:
  "(''id'' \<in> set (columns (notifs s)) \<and>
    (\<forall>r \<in> set (rows (notifs s)). \<not> cell_eq (cell r ''id'') (IntV n)) \<longrightarrow>
      aplicar_cambio L t n ne ev s = Inr (s\<lparr>shown := shown s @ [Warning ''ID no encontrado.'']\<rparr>)) \<and>
   (''id'' \<in> set (columns (ptwot s)) \<and>
    (\<forall>r \<in> set (rows (ptwot s)). \<not> cell_eq (cell r ''id'') (IntV n)) \<longrightarrow>
      aplicar_ptw L t n nuevo ap s = Inr (s\<lparr>shown := shown s @ [Warning ''ID no encontrado.'']\<rparr>))"
  by (simp add: aplicar_cambio_eq aplicar_ptw_eq pd_any_id_mask)

theorem unknown_id_witness:
  "aplicar_cambio ex_lib ex_time 999 ''Recibida'' [] ex_session =
     Inr (ex_session\<lparr>shown := [Warning ''ID no encontrado.'']\<rparr>) \<and>
   aplicar_ptw ex_lib ex_time 999 ''Cerrado'' ''No'' ex_session =
     Inr (ex_session\<lparr>shown := [Warning ''ID no encontrado.'']\<rparr>)"
proof -
  have n: "notifs ex_session = seed_notif ex_time ex_time" and p: "ptwot ex_session = seed_ptw ex_time"
    and sh: "shown ex_session = []"
    by (simp_all add: ex_session_def)
  have "\<forall>v \<in> set (map (\<lambda>r. cell r ''id'') (rows (notifs ex_session))). \<not> cell_eq v (IntV 999)"
    unfolding n notif_ids by (simp add: cell_eq_IntV)
  then have 1: "''id'' \<in> set (columns (notifs ex_session)) \<and>
           (\<forall>r \<in> set (rows (notifs ex_session)). \<not> cell_eq (cell r ''id'') (IntV 999))"
    by (simp add: n notif_columns)
  have "\<forall>v \<in> set (map (\<lambda>r. cell r ''id'') (rows (ptwot ex_session))). \<not> cell_eq v (IntV 999)"
    unfolding p ptw_ids by (simp add: cell_eq_IntV)
  then have 2: "''id'' \<in> set (columns (ptwot ex_session)) \<and>
           (\<forall>r \<in> set (rows (ptwot ex_session)). \<not> cell_eq (cell r ''id'') (IntV 999))"
    by (simp add: p ptw_columns)
  show ?thesis
    using unknown_id_changes_nothing [of ex_session 999 ex_lib ex_time "''Recibida''" "[]" "''Cerrado''" "''No''"]
      1 2 by (simp add: sh)
qed

text \<open>
  Claim C10. A status change of the notifications never clears an optional field: in
  every row the received-timestamp reads as before unless the new status is
  \<^verbatim>\<open>Recibida\<close>, the closed-timestamp reads as before unless the new status is
  \<^verbatim>\<open>Completada\<close>, the evidence reads as before when the evidence text is empty, and a
  field that does change holds a text that is not empty.
\<close>

theorem status_change_never_clears:
  assumes "''id'' \<in> set (columns (notifs s))"
  shows "\<exists>s'. aplicar_cambio L t n ne ev s = Inr s' \<and>
           length (rows (notifs s')) = length (rows (notifs s)) \<and>
           (\<forall>j < length (rows (notifs s)).
              (ne \<noteq> ''Recibida'' \<longrightarrow>
                 cell (rows (notifs s') ! j) ''ts_recibida'' = cell (rows (notifs s) ! j) ''ts_recibida'') \<and>
              (ne \<noteq> ''Completada'' \<longrightarrow>
                 cell (rows (notifs s') ! j) ''ts_cerrada'' = cell (rows (notifs s) ! j) ''ts_cerrada'') \<and>
              (ev = [] \<longrightarrow>
                 cell (rows (notifs s') ! j) ''evidencia'' = cell (rows (notifs s) ! j) ''evidencia'') \<and>
              (\<forall>c \<in> {''ts_recibida'', ''ts_cerrada'', ''evidencia''}.
                 cell (rows (notifs s') ! j) c = cell (rows (notifs s) ! j) c \<or>
                 (\<exists>v. v \<noteq> [] \<and> cell (rows (notifs s') ! j) c = StrV v)))"
proof (cases "pd_any (id_mask (notifs s) n)")
  case False
  then show ?thesis
    by (simp add: aplicar_cambio_eq [OF assms])
next
  case True
  let ?df = "notifs s"
  let ?df' = "cambio_estado ?df (id_mask ?df n) ne ev t"
  let ?s' = "s\<lparr>notifs := ?df',
               disk := (disk s)(tmp_path F_NOTIF := None, F_NOTIF \<mapsto> to_csv L ?df'),
               st_cache := Map.empty,
               shown := shown s @ [Success ''Estado actualizado.'']\<rparr>"
  have run: "aplicar_cambio L t n ne ev s = Inr ?s'"
    using True by (simp add: aplicar_cambio_eq [OF assms])
  have len: "length (rows ?df') = length (rows ?df)"
    by (simp add: length_rows_cambio_estado length_id_mask)
  have cells: "cell (rows ?df' ! j) c =
     (if id_mask ?df n ! j then
        (if c = ''evidencia'' \<and> ev \<noteq> [] then StrV ev
         else if c = ''ts_cerrada'' \<and> ne = ''Completada'' then StrV (now_iso t)
         else if c = ''ts_recibida'' \<and> ne = ''Recibida'' then StrV (now_iso t)
         else if c = ''estado'' then StrV ne
         else cell (rows ?df ! j) c)
      else cell (rows ?df ! j) c)" if "j < length (rows ?df)" for j c
    using that by (simp add: cell_rows_cambio_estado length_id_mask)
  have row: "(ne \<noteq> ''Recibida'' \<longrightarrow>
                 cell (rows ?df' ! j) ''ts_recibida'' = cell (rows ?df ! j) ''ts_recibida'') \<and>
              (ne \<noteq> ''Completada'' \<longrightarrow>
                 cell (rows ?df' ! j) ''ts_cerrada'' = cell (rows ?df ! j) ''ts_cerrada'') \<and>
              (ev = [] \<longrightarrow>
                 cell (rows ?df' ! j) ''evidencia'' = cell (rows ?df ! j) ''evidencia'') \<and>
              (\<forall>c \<in> {''ts_recibida'', ''ts_cerrada'', ''evidencia''}.
                 cell (rows ?df' ! j) c = cell (rows ?df ! j) c \<or>
                 (\<exists>v. v \<noteq> [] \<and> cell (rows ?df' ! j) c = StrV v))"
    if "j < length (rows ?df)" for j
    using cells [OF that, of "''ts_recibida''"] cells [OF that, of "''ts_cerrada''"]
      cells [OF that, of "''evidencia''"] now_iso_nonempty [of t]
    by (auto split: if_splits)
  show ?thesis
    by (intro exI [of _ ?s']) (use run len row in simp)
qed

theorem never_clears_witness:
  "\<exists>s'. aplicar_cambio ex_lib ex_time 2 ''Pendiente'' [] ex_session_twice = Inr s' \<and>
         length (rows (notifs s')) = 2 \<and>
         cell (rows (notifs s') ! 1) ''ts_cerrada'' = StrV ''2024-12-31 23:59:59'' \<and>
         cell (rows (notifs s') ! 1) ''evidencia'' = StrV ''foto.jpg''"
proof -
  have "''id'' \<in> set (columns (notifs ex_session_twice))"
    by (simp add: notifs_ex_session_twice twice_columns)
  from status_change_never_clears [OF this, of ex_lib ex_time 2 "''Pendiente''" "[]"]
  obtain s' where
    run: "aplicar_cambio ex_lib ex_time 2 ''Pendiente'' [] ex_session_twice = Inr s'" and
    len: "length (rows (notifs s')) = length (rows (notifs ex_session_twice))" and
    all: "\<forall>j < length (rows (notifs ex_session_twice)).
            (''Pendiente'' \<noteq> ''Recibida'' \<longrightarrow>
               cell (rows (notifs s') ! j) ''ts_recibida'' = cell (rows (notifs ex_session_twice) ! j) ''ts_recibida'') \<and>
            (''Pendiente'' \<noteq> ''Completada'' \<longrightarrow>
               cell (rows (notifs s') ! j) ''ts_cerrada'' = cell (rows (notifs ex_session_twice) ! j) ''ts_cerrada'') \<and>
            (([] :: string) = [] \<longrightarrow>
               cell (rows (notifs s') ! j) ''evidencia'' = cell (rows (notifs ex_session_twice) ! j) ''evidencia'') \<and>
            (\<forall>c \<in> {''ts_recibida'', ''ts_cerrada'', ''evidencia''}.
               cell (rows (notifs s') ! j) c = cell (rows (notifs ex_session_twice) ! j) c \<or>
               (\<exists>v. v \<noteq> [] \<and> cell (rows (notifs s') ! j) c = StrV v))"
    by blast
  have "cell (rows (notifs s') ! 1) ''ts_cerrada'' = cell (rows ex_twice ! Suc 0) ''ts_cerrada'' \<and>
        cell (rows (notifs s') ! 1) ''evidencia'' = cell (rows ex_twice ! Suc 0) ''evidencia''"
    using all [rule_format, of 1] by (simp add: notifs_ex_session_twice twice_rows_length)
  then show ?thesis
    using run len by (simp add: notifs_ex_session_twice twice_rows_length twice_cells)
qed

subsection \<open>Saving\<close>

lemma path_replace_written:
  "path_replace (files(tmp \<mapsto> c)) tmp path = Inr ((files(tmp := None))(path \<mapsto> c))"
  by (simp add: path_replace_def)

lemma crash_states_save:
  assumes "may (tmp_path path)" and "may path"
  shows "crash_states may (save_csv_ops w df path) files =
     files # map (\<lambda>k. files(tmp_path path \<mapsto> take k (w df))) [0..<length (w df)] @
     [files(tmp_path path \<mapsto> w df), (files(tmp_path path := None))(path \<mapsto> w df)]"
  using assms by (simp add: save_csv_ops_def Let_def path_replace_written)

lemma crash_states_save_refused:
  assumes "\<not> (may (tmp_path path) \<and> may path)"
  shows "set (crash_states may (save_csv_ops w df path) files) \<subseteq>
     insert files (insert (files(tmp_path path \<mapsto> w df))
       ((\<lambda>k. files(tmp_path path \<mapsto> take k (w df))) ` {0..<length (w df)}))"
  using assms by (auto simp add: save_csv_ops_def Let_def)

lemma crash_states_save_cases:
  assumes "st \<in> set (crash_states may (save_csv_ops w df path) files)"
  shows "st = (files(tmp_path path := None))(path \<mapsto> w df) \<or>
         (\<exists>k. st = files(tmp_path path \<mapsto> take k (w df))) \<or> st = files"
proof (cases "may (tmp_path path) \<and> may path")
  case True
  then show ?thesis
    using assms by (auto simp add: crash_states_save) (metis take_all order_refl)
next
  case False
  from crash_states_save_refused [OF this, of w df files] assms
  consider "st = files" | "st = files(tmp_path path \<mapsto> w df)"
    | k where "st = files(tmp_path path \<mapsto> take k (w df))"
    by auto
  then show ?thesis
  proof cases
    case 2
    then have "st = files(tmp_path path \<mapsto> take (length (w df)) (w df))" by simp
    then show ?thesis by blast
  qed auto
qed

text \<open>
  Claim C1. \<open>save_csv\<close> is two file operations: the write of the whole serialisation to
  the temporary path (the final path with \<^verbatim>\<open>.tmp\<close> added), then the rename of the
  temporary path over the final one; in a directory that lets it write it ends with the
  new serialisation at the final path and no temporary file. Whatever the permissions,
  in every state of the data directory that an interruption of these operations can
  leave behind, the final path holds what it held before or the complete new
  serialisation, so a file that existed is at no point missing, cut short or mixed, and
  no path other than the final and the temporary one changes. With the permissions,
  the states are, in order: the state before, the temporary file growing from empty,
  the temporary file complete, the state after the rename.
\<close>

theorem save_replaces_atomically:
  "save_csv_ops w df path = [WriteFile (path @ ''.tmp'') (w df), ReplaceFile (path @ ''.tmp'') path] \<and>
   save_csv w df path files = run_ops (\<lambda>p. True) (save_csv_ops w df path) files \<and>
   save_csv w df path files = Inr ((files(path @ ''.tmp'' := None))(path \<mapsto> w df)) \<and>
   (\<forall>st \<in> set (crash_states may (save_csv_ops w df path) files).
      (st path = files path \<or> st path = Some (w df)) \<and>
      (\<forall>p. p \<noteq> path \<and> p \<noteq> path @ ''.tmp'' \<longrightarrow> st p = files p)) \<and>
   (\<forall>old. files path = Some old \<longrightarrow>
      (\<forall>st \<in> set (crash_states may (save_csv_ops w df path) files).
         st path = Some old \<or> st path = Some (w df))) \<and>
   (may (path @ ''.tmp'') \<and> may path \<longrightarrow>
      crash_states may (save_csv_ops w df path) files =
        files # map (\<lambda>k. files(path @ ''.tmp'' \<mapsto> take k (w df))) [0..<length (w df)] @
        [files(path @ ''.tmp'' \<mapsto> w df), (files(path @ ''.tmp'' := None))(path \<mapsto> w df)])"
proof -
  let ?tmp = "tmp_path path"
  have t: "?tmp = path @ ''.tmp''" by (simp add: tmp_path_def)
  have neq: "?tmp \<noteq> path" by (rule tmp_path_neq)
  have 1: "save_csv_ops w df path = [WriteFile ?tmp (w df), ReplaceFile ?tmp path]"
    by (simp add: save_csv_ops_def Let_def)
  have 2: "save_csv w df path files = run_ops (\<lambda>p. True) (save_csv_ops w df path) files"
    by (simp add: save_csv_def save_csv_in_def)
  have 3: "save_csv w df path files = Inr ((files(?tmp := None))(path \<mapsto> w df))"
    by (rule save_csv_eq)
  have 4: "(st path = files path \<or> st path = Some (w df)) \<and>
           (\<forall>p. p \<noteq> path \<and> p \<noteq> ?tmp \<longrightarrow> st p = files p)"
    if "st \<in> set (crash_states may (save_csv_ops w df path) files)" for st
    using crash_states_save_cases [OF that] neq by auto
  have 5: "\<forall>old. files path = Some old \<longrightarrow>
      (\<forall>st \<in> set (crash_states may (save_csv_ops w df path) files).
         st path = Some old \<or> st path = Some (w df))"
    using 4 by metis
  have 6: "may ?tmp \<and> may path \<longrightarrow>
      crash_states may (save_csv_ops w df path) files =
        files # map (\<lambda>k. files(?tmp \<mapsto> take k (w df))) [0..<length (w df)] @
        [files(?tmp \<mapsto> w df), (files(?tmp := None))(path \<mapsto> w df)]"
    using crash_states_save by blast
  show ?thesis
    using 1 2 3 4 5 6 unfolding t by blast
qed

theorem save_atomic_witness:
  "map (\<lambda>st. (st ''data/x.csv'', st ''data/x.csv.tmp''))
     (crash_states (\<lambda>p. True) (save_csv_ops (\<lambda>df. ''ab'') DataFrame_empty ''data/x.csv'')
        [''data/x.csv'' \<mapsto> ''old''])
     = [(Some ''old'', None), (Some ''old'', Some []), (Some ''old'', Some ''a''),
        (Some ''old'', Some ''ab''), (Some ''ab'', None)] \<and>
   save_csv (\<lambda>df. ''ab'') DataFrame_empty ''data/x.csv'' [''data/x.csv'' \<mapsto> ''old'']
     = Inr [''data/x.csv'' \<mapsto> ''ab'']"
proof -
  note t = save_replaces_atomically
      [of "\<lambda>df. ''ab''" DataFrame_empty "''data/x.csv''" "[''data/x.csv'' \<mapsto> ''old'']" "\<lambda>p. True"]
  have s: "save_csv (\<lambda>df. ''ab'') DataFrame_empty ''data/x.csv'' [''data/x.csv'' \<mapsto> ''old'']
      = Inr (([''data/x.csv'' \<mapsto> ''old''](''data/x.csv'' @ ''.tmp'' := None))(''data/x.csv'' \<mapsto> ''ab''))"
    using t by blast
  have c: "crash_states (\<lambda>p. True) (save_csv_ops (\<lambda>df. ''ab'') DataFrame_empty ''data/x.csv'')
        [''data/x.csv'' \<mapsto> ''old''] =
      [''data/x.csv'' \<mapsto> ''old''] #
      map (\<lambda>k. [''data/x.csv'' \<mapsto> ''old''](''data/x.csv'' @ ''.tmp'' \<mapsto> take k ''ab'')) [0..<length ''ab''] @
      [[''data/x.csv'' \<mapsto> ''old''](''data/x.csv'' @ ''.tmp'' \<mapsto> ''ab''),
       ([''data/x.csv'' \<mapsto> ''old''](''data/x.csv'' @ ''.tmp'' := None))(''data/x.csv'' \<mapsto> ''ab'')]"
    using t by blast
  have "([''data/x.csv'' \<mapsto> ''old''](''data/x.csv.tmp'' := None))(''data/x.csv'' \<mapsto> ''ab'')
      = [''data/x.csv'' \<mapsto> ''ab'']"
    by (auto simp add: fun_eq_iff)
  then show ?thesis
    unfolding c s by (simp add: upt_rec)
qed

text \<open>
  The temporary file is what makes the difference: a write straight to the final path
  would, interrupted, leave the file cut short.
\<close>

lemma direct_write_is_not_atomic:
  "[''data/x.csv'' \<mapsto> ''a''] \<in>
     set (crash_states (\<lambda>p. True) [WriteFile ''data/x.csv'' ''ab''] [''data/x.csv'' \<mapsto> ''old''])"
  by (simp add: upt_rec)

subsection \<open>Loading\<close>




lemma str_nat_digit: "n < 10 \<Longrightarrow> str_nat n = [digit_char n]"
  by (simp add: str_nat.simps)

lemma csv_plain_ex_ids: "csv_plain ex_ids = ''id'' @ [CHR 0x0A] @ ''3'' @ [CHR 0x0A] @ ''7'' @ [CHR 0x0A] @ ''2'' @ [CHR 0x0A]"
  by (simp add: csv_plain_def csv_line_def ex_ids_unfold show_cell_def cell_def str_int_def
        str_nat_digit digit_char_def)






subsection \<open>Seeding\<close>

lemma data_files_end_in_v: "p \<in> set data_files \<Longrightarrow> last p = CHR ''v''"
  by (auto simp add: data_files_def F_USUARIOS_def F_ACTIVOS_def F_NOTIF_def F_RONDAS_PLT_def
        F_RONDAS_RUN_def F_INCIDENTES_def F_PTWOT_def)

lemma tmp_path_not_data: "p \<in> set data_files \<Longrightarrow> tmp_path q \<noteq> p"
proof
  assume "p \<in> set data_files" and "tmp_path q = p"
  then have "last (tmp_path q) = CHR ''v''" by (simp add: data_files_end_in_v)
  then show False by (simp add: tmp_path_def)
qed

lemma distinct_data_files: "distinct data_files"
  by (simp add: data_files_def F_USUARIOS_def F_ACTIVOS_def F_NOTIF_def F_RONDAS_PLT_def
        F_RONDAS_RUN_def F_INCIDENTES_def F_PTWOT_def)

lemma map_fst_seed_tables: "map fst (seed_tables clk) = data_files"
  by (simp add: seed_tables_def data_files_def)

lemma seed_file_eq:
  "seed_file w p df files =
     Inr (if p \<in> dom files then files else (files(tmp_path p := None))(p \<mapsto> w df))"
  by (simp add: seed_file_def save_csv_eq)

lemma bind_exn_Inr_right: "bind_exn m Inr = m"
  by (cases m) (simp_all add: bind_exn_def)

lemma seed_if_missing_eq: "seed_if_missing w clk files = seed_all w (seed_tables clk) files"
proof -
  have nil: "seed_all w [] = Inr"
    by (rule ext) simp
  have step: "seed_all w ((p, df) # rest) = (\<lambda>f. bind_exn (seed_file w p df f) (seed_all w rest))"
    for p df rest
    by (rule ext) simp
  show ?thesis
    unfolding seed_tables_def seed_if_missing_def
    by (simp only: step nil bind_exn_Inr_right One_nat_def)
qed

lemma seed_all_result:
  assumes "distinct (map fst tbl)" and "set (map fst tbl) \<subseteq> set data_files"
  shows "\<exists>files'. seed_all w tbl files = Inr files' \<and>
           (\<forall>(p, df) \<in> set tbl. files' p = (if p \<in> dom files then files p else Some (w df))) \<and>
           (\<forall>q \<in> set data_files. q \<notin> set (map fst tbl) \<longrightarrow> files' q = files q)"
  using assms
proof (induction tbl arbitrary: files)
  case Nil
  then show ?case by simp
next
  case (Cons a tbl)
  obtain p df where a: "a = (p, df)" by (cases a)
  let ?f1 = "if p \<in> dom files then files else (files(tmp_path p := None))(p \<mapsto> w df)"
  have p: "p \<in> set data_files" and fresh: "p \<notin> set (map fst tbl)"
    using Cons.prems by (simp_all add: a)
  have f1p: "?f1 p = (if p \<in> dom files then files p else Some (w df))"
    by simp
  have f1q: "?f1 q = files q" if "q \<in> set data_files" "q \<noteq> p" for q
    using that tmp_path_not_data [of q p] by auto
  from Cons.IH [of ?f1] Cons.prems obtain files' where
    run: "seed_all w tbl ?f1 = Inr files'" and
    tb: "\<forall>(q, d) \<in> set tbl. files' q = (if q \<in> dom ?f1 then ?f1 q else Some (w d))" and
    ot: "\<forall>q \<in> set data_files. q \<notin> set (map fst tbl) \<longrightarrow> files' q = ?f1 q"
    by (auto simp add: a)
  have e1: "seed_all w (a # tbl) files = Inr files'"
    by (simp add: a seed_file_eq bind_exn_def run)
  have e2: "files' p = (if p \<in> dom files then files p else Some (w df))"
    using ot p fresh f1p by metis
  have e3: "files' q = (if q \<in> dom files then files q else Some (w d))" if "(q, d) \<in> set tbl" for q d
  proof -
    have "q \<in> set data_files" and "q \<noteq> p"
      using that Cons.prems fresh by (force simp add: a)+
    then have "?f1 q = files q" by (rule f1q)
    moreover have "files' q = (if q \<in> dom ?f1 then ?f1 q else Some (w d))"
      using tb that by blast
    ultimately show ?thesis by (simp add: dom_def)
  qed
  have e4: "files' q = files q" if "q \<in> set data_files" "q \<notin> set (map fst (a # tbl))" for q
  proof -
    have "q \<noteq> p" and "q \<notin> set (map fst tbl)" using that(2) by (simp_all add: a)
    then show ?thesis using ot f1q that(1) by metis
  qed
  have 23: "\<forall>(q, d) \<in> set (a # tbl). files' q = (if q \<in> dom files then files q else Some (w d))"
  proof (rule ballI)
    fix x assume "x \<in> set (a # tbl)"
    then consider "x = (p, df)" | "x \<in> set tbl" by (auto simp add: a)
    then show "case x of (q, d) \<Rightarrow> files' q = (if q \<in> dom files then files q else Some (w d))"
    proof cases
      case 1
      with e2 show ?thesis by simp
    next
      case 2
      then show ?thesis using e3 [of "fst x" "snd x"] by (simp add: case_prod_beta)
    qed
  qed
  have e5: "\<forall>q \<in> set data_files. q \<notin> set (map fst (a # tbl)) \<longrightarrow> files' q = files q"
    using e4 by blast
  show ?case
    using e1 23 e5 by blast
qed

lemma seed_if_missing_all_present:
  assumes "\<forall>p \<in> set data_files. p \<in> dom files"
  shows "seed_if_missing w clk files = Inr files"
  using assms by (simp add: seed_if_missing_def seed_file_eq bind_exn_def data_files_def)

text \<open>
  Claim C7. \<open>seed_if_missing\<close> succeeds; afterwards each of the seven data files that
  existed holds what it held, whatever that was, each one that was missing holds the
  serialisation of its predefined table, and all seven exist. A second call, at any
  later clock, is then a no-op: the data directory stays exactly as the first call
  left it. On a directory that has all seven files the call changes nothing.
\<close>

theorem seed_is_idempotent:
  "\<exists>files'. seed_if_missing w clk files = Inr files' \<and>
      (\<forall>(p, df) \<in> set (seed_tables clk).
         files' p = (if p \<in> dom files then files p else Some (w df))) \<and>
      (\<forall>p \<in> set data_files. p \<in> dom files') \<and>
      seed_if_missing w' clk' files' = Inr files' \<and>
      ((\<forall>p \<in> set data_files. p \<in> dom files) \<longrightarrow> files' = files)"
proof -
  obtain files' where run: "seed_if_missing w clk files = Inr files'" and
    tb: "\<forall>(p, df) \<in> set (seed_tables clk).
           files' p = (if p \<in> dom files then files p else Some (w df))"
    using seed_all_result [of "seed_tables clk" w files]
    by (auto simp add: seed_if_missing_eq map_fst_seed_tables distinct_data_files)
  have dom: "\<forall>p \<in> set data_files. p \<in> dom files'"
  proof
    fix p assume "p \<in> set data_files"
    then obtain df where "(p, df) \<in> set (seed_tables clk)"
      unfolding map_fst_seed_tables [of clk, symmetric] by auto
    with tb have "files' p = (if p \<in> dom files then files p else Some (w df))" by blast
    then show "p \<in> dom files'" by (auto simp add: dom_def split: if_splits)
  qed
  have again: "seed_if_missing w' clk' files' = Inr files'"
    using dom by (rule seed_if_missing_all_present)
  have same: "files' = files" if "\<forall>p \<in> set data_files. p \<in> dom files"
    using seed_if_missing_all_present [OF that, of w clk] run by simp
  show ?thesis
    using run tb dom again same by blast
qed

theorem seed_witness:
  "(\<exists>files'. seed_if_missing csv_plain (\<lambda>k. ex_time) Map.empty = Inr files' \<and>
      files' F_NOTIF = Some (csv_plain (seed_notif ex_time ex_time)) \<and>
      files' F_RONDAS_RUN = Some (csv_plain seed_rondas_run) \<and>
      seed_if_missing csv_plain (\<lambda>k. ex_time) files' = Inr files') \<and>
   (\<exists>files'. seed_if_missing csv_plain (\<lambda>k. ex_time) [F_NOTIF \<mapsto> ''garbage''] = Inr files' \<and>
      files' F_NOTIF = Some ''garbage'' \<and>
      files' F_PTWOT = Some (csv_plain (seed_ptw ex_time)))"
proof -
  let ?clk = "\<lambda>k::nat. ex_time"
  have n: "(F_NOTIF, seed_notif ex_time ex_time) \<in> set (seed_tables ?clk)"
    and r: "(F_RONDAS_RUN, seed_rondas_run) \<in> set (seed_tables ?clk)"
    and p: "(F_PTWOT, seed_ptw ex_time) \<in> set (seed_tables ?clk)"
    by (simp_all add: seed_tables_def)
  have ne: "F_PTWOT \<noteq> F_NOTIF"
    by (simp add: F_PTWOT_def F_NOTIF_def)
  obtain f where f: "seed_if_missing csv_plain ?clk Map.empty = Inr f"
    and ft: "\<forall>(p, df) \<in> set (seed_tables ?clk).
         f p = (if p \<in> dom (Map.empty :: fs) then (Map.empty :: fs) p else Some (csv_plain df))"
    and fa: "seed_if_missing csv_plain ?clk f = Inr f"
    using seed_is_idempotent [of csv_plain ?clk Map.empty csv_plain ?clk] by blast
  have f1: "f F_NOTIF = Some (csv_plain (seed_notif ex_time ex_time))"
    using ft n by fastforce
  have f2: "f F_RONDAS_RUN = Some (csv_plain seed_rondas_run)"
    using ft r by fastforce
  let ?g0 = "[F_NOTIF \<mapsto> ''garbage'']"
  obtain g where g: "seed_if_missing csv_plain ?clk ?g0 = Inr g"
    and gt: "\<forall>(p, df) \<in> set (seed_tables ?clk).
         g p = (if p \<in> dom ?g0 then ?g0 p else Some (csv_plain df))"
    using seed_is_idempotent [of csv_plain ?clk ?g0 csv_plain ?clk] by blast
  have "g F_NOTIF = (if F_NOTIF \<in> dom ?g0 then ?g0 F_NOTIF else Some (csv_plain (seed_notif ex_time ex_time)))"
    using gt n by fast
  then have g1: "g F_NOTIF = Some ''garbage''" by simp
  have "g F_PTWOT = (if F_PTWOT \<in> dom ?g0 then ?g0 F_PTWOT else Some (csv_plain (seed_ptw ex_time)))"
    using gt p by fast
  then have g2: "g F_PTWOT = Some (csv_plain (seed_ptw ex_time))" using ne by simp
  show ?thesis using f f1 f2 fa g g1 g2 by blast
qed

subsection \<open>Rondas: the identifiers of a batch\<close>

lemma filter_zip_map:
  "map snd (filter (\<lambda>(p, r). P p) (zip (map f xs) xs)) = filter (\<lambda>r. P (f r)) xs"
  by (induction xs) auto

lemma bind_exn_Inr_iff:
  "bind_exn m k = Inr y \<longleftrightarrow> (\<exists>x. m = Inr x \<and> k x = Inr y)"
  by (cases m) (simp_all add: bind_exn_def)

lemma lectura_id:
  "lectura L run cs sel_pl op idx r valor t = Inr d \<Longrightarrow>
   dict_get d ''id'' = IntV (next_sequential_id (str_num L) (Some run) ''id'' + int idx)"
  by (auto simp add: lectura_def bind_exn_Inr_iff dict_get_def)

lemma lecturas_ids:
  "lecturas L run cs sel_pl op valores clk idx rs = Inr ds \<Longrightarrow>
   length ds = length rs \<and>
   (\<forall>i < length rs. dict_get (ds ! i) ''id'' =
       IntV (next_sequential_id (str_num L) (Some run) ''id'' + int (idx + i)))"
proof (induction rs arbitrary: idx ds)
  case Nil
  then show ?case by simp
next
  case (Cons r rs)
  from Cons.prems obtain d ds' where
    d: "lectura L run cs sel_pl op idx r (valores idx) (clk idx) = Inr d" and
    ds': "lecturas L run cs sel_pl op valores clk (Suc idx) rs = Inr ds'" and
    ds: "ds = d # ds'"
    by (auto simp add: bind_exn_Inr_iff)
  from Cons.IH [OF ds'] have
    len: "length ds' = length rs" and
    ids: "\<forall>i < length rs. dict_get (ds' ! i) ''id'' =
       IntV (next_sequential_id (str_num L) (Some run) ''id'' + int (Suc idx + i))"
    by simp_all
  have "dict_get (ds ! i) ''id'' =
       IntV (next_sequential_id (str_num L) (Some run) ''id'' + int (idx + i))"
    if "i < length (r # rs)" for i
  proof (cases i)
    case 0
    then show ?thesis using lectura_id [OF d] by (simp add: ds)
  next
    case (Suc j)
    then show ?thesis using ids that by (simp add: ds)
  qed
  then show ?case by (simp add: ds len)
qed

lemma limit_value_ok: "(\<forall>v. x \<noteq> StrV v) \<Longrightarrow> \<exists>n. limit_value x = Inr n"
  by (cases x) (simp_all add: limit_value_def)

lemma lectura_succeeds:
  assumes "set [''tag'', ''variable'', ''lim_inf'', ''lim_sup''] \<subseteq> set cs"
    and "\<forall>c \<in> {''lim_inf'', ''lim_sup''}. \<forall>v. cell r c \<noteq> StrV v"
  shows "\<exists>d. lectura L run cs sel_pl op idx r valor t = Inr d"
proof -
  obtain lo where lo: "limit_value (cell r ''lim_inf'') = Inr lo"
    using assms(2) limit_value_ok [of "cell r ''lim_inf''"] by auto
  obtain hi where hi: "limit_value (cell r ''lim_sup'') = Inr hi"
    using assms(2) limit_value_ok [of "cell r ''lim_sup''"] by auto
  show ?thesis
    using assms(1) by (simp add: lectura_def row_item_def bind_exn_def lo hi)
qed

lemma lecturas_succeed:
  assumes "set [''tag'', ''variable'', ''lim_inf'', ''lim_sup''] \<subseteq> set cs"
    and "\<forall>r \<in> set rs. \<forall>c \<in> {''lim_inf'', ''lim_sup''}. \<forall>v. cell r c \<noteq> StrV v"
  shows "\<exists>ds. lecturas L run cs sel_pl op valores clk idx rs = Inr ds"
  using assms(2)
proof (induction rs arbitrary: idx)
  case Nil
  then show ?case by simp
next
  case (Cons r rs)
  have "\<forall>c \<in> {''lim_inf'', ''lim_sup''}. \<forall>v. cell r c \<noteq> StrV v"
    using Cons.prems by simp
  from lectura_succeeds [OF assms(1) this, of L run sel_pl op idx "valores idx" "clk idx"]
  obtain d where d: "lectura L run cs sel_pl op idx r (valores idx) (clk idx) = Inr d"
    by blast
  obtain ds where ds: "lecturas L run cs sel_pl op valores clk (Suc idx) rs = Inr ds"
    using Cons.IH [of "Suc idx"] Cons.prems by auto
  show ?case by (simp add: bind_exn_def d ds)
qed

lemma ronda_rows_eq:
  assumes "''plantilla'' \<in> set (columns (rondas_plt s))" and "''nombre'' \<in> set (columns (usuarios s))"
  shows "ronda_rows L sel_pl op valores clk s =
     lecturas L (rondas_run s) (columns (rondas_plt s)) sel_pl op valores clk 0
       (plantilla_rows (rondas_plt s) sel_pl)"
  using assms
  by (simp add: ronda_rows_def get_column_def bind_exn_def plantilla_rows_def filter_zip_map)

lemma ronda_rows_Inr_columns:
  "ronda_rows L sel_pl op valores clk s = Inr ds \<Longrightarrow>
   ''plantilla'' \<in> set (columns (rondas_plt s)) \<and> ''nombre'' \<in> set (columns (usuarios s))"
  by (auto simp add: ronda_rows_def get_column_def bind_exn_def split: if_splits)

lemma guardar_ronda_eq:
  assumes "\<not> df_empty (rondas_plt s)" and "ronda_rows L sel_pl op valores clk s = Inr ds" and "ds \<noteq> []"
  shows "guardar_ronda L sel_pl op valores clk s =
     Inr (s\<lparr>rondas_run := pd_concat (rondas_run s) (DataFrame_records ds),
            disk := (disk s)(tmp_path F_RONDAS_RUN := None,
               F_RONDAS_RUN \<mapsto> to_csv L (pd_concat (rondas_run s) (DataFrame_records ds))),
            st_cache := Map.empty,
            shown := shown s @ [Success ''Ronda guardada.'']\<rparr>)"
  using assms
  by (simp add: guardar_ronda_def bind_exn_def commit_def save_csv_eq Let_def)

lemma key_of_dict_get: "dict_get d c \<noteq> NaN \<Longrightarrow> c \<in> fst ` set d"
  by (cases "map_of d c") (auto simp add: dict_get_def dest: map_of_SomeD intro: rev_image_eqI)

lemma set_columns_DataFrame_records:
  "set (columns (DataFrame_records ds)) = (\<Union>d \<in> set ds. fst ` set d)"
  by (auto simp add: DataFrame_records_def Let_def)

lemma float64_cells_append_integers:
  assumes "\<forall>v \<in> set ys. is_integer v"
  shows "float64_cells (xs @ ys) = float64_cells xs"
proof -
  have "is_number v \<and> \<not> is_floating v" if "v \<in> set ys" for v
    using assms that by (cases v) (auto simp add: is_integer_def is_number_def is_floating_def)
  then show ?thesis
    by (auto simp add: float64_cells_def list_all_iff list_ex_iff)
qed

lemma batch_id_cells:
  assumes "\<forall>i < length ds. dict_get (ds ! i) ''id'' = IntV (n + int i)"
  shows "column_cells (DataFrame_records ds) ''id'' = map (\<lambda>i. IntV (n + int i)) [0..<length ds]"
proof -
  have m: "map (\<lambda>d. dict_get d ''id'') ds = map (\<lambda>i. IntV (n + int i)) [0..<length ds]"
    by (rule nth_equalityI) (use assms in simp_all)
  have "\<not> float64_cells (map (\<lambda>i. IntV (n + int i)) [0..<length ds])"
    by (simp add: float64_cells_def list_ex_iff is_floating_def)
  then show ?thesis
    by (simp add: column_cells_DataFrame_records m)
qed

text \<open>
  Claim C5. Whenever the page builds its rows, there is one row per selected template
  row and the row at offset \<open>i\<close> carries the identifier
  \<open>next_sequential_id(rondas_run) + i\<close>, computed from the executions as loaded. The
  rows are built whenever the templates have their five columns with numeric limits and
  the users have their names. Saving a batch that is not empty appends these rows, with
  these identifiers, after the loaded executions and writes the file; an identifier is
  stored as the integer it is, or as the float of the same value when the identifier
  column of the loaded executions is a float64 column.
\<close>

theorem batch_ids_are_next_id_plus_offset:
  "(\<forall>ds. ronda_rows L sel_pl op valores clk s = Inr ds \<longrightarrow>
      length ds = length (plantilla_rows (rondas_plt s) sel_pl) \<and>
      (\<forall>i < length ds. dict_get (ds ! i) ''id'' =
         IntV (next_sequential_id (str_num L) (Some (rondas_run s)) ''id'' + int i))) \<and>
   (set [''plantilla'', ''tag'', ''variable'', ''lim_inf'', ''lim_sup''] \<subseteq> set (columns (rondas_plt s)) \<and>
    ''nombre'' \<in> set (columns (usuarios s)) \<and> numeric_limits (rondas_plt s) \<longrightarrow>
      (\<exists>ds. ronda_rows L sel_pl op valores clk s = Inr ds)) \<and>
   (\<forall>ds. \<not> df_empty (rondas_plt s) \<and> ronda_rows L sel_pl op valores clk s = Inr ds \<and> ds \<noteq> [] \<longrightarrow>
      (\<exists>s'. guardar_ronda L sel_pl op valores clk s = Inr s' \<and>
         length (rows (rondas_run s')) = length (rows (rondas_run s)) + length ds \<and>
         (\<forall>i < length ds.
            cell (rows (rondas_run s') ! (length (rows (rondas_run s)) + i)) ''id'' =
              (if float64_cells (column_cells (rondas_run s) ''id'')
               then FloatV (of_int (next_sequential_id (str_num L) (Some (rondas_run s)) ''id'' + int i))
               else IntV (next_sequential_id (str_num L) (Some (rondas_run s)) ''id'' + int i))) \<and>
         disk s' F_RONDAS_RUN = Some (to_csv L (rondas_run s'))))"
proof -
  let ?next = "next_sequential_id (str_num L) (Some (rondas_run s)) ''id''"
  have ids: "length ds = length (plantilla_rows (rondas_plt s) sel_pl) \<and>
      (\<forall>i < length ds. dict_get (ds ! i) ''id'' = IntV (?next + int i))"
    if r: "ronda_rows L sel_pl op valores clk s = Inr ds" for ds
  proof -
    have "lecturas L (rondas_run s) (columns (rondas_plt s)) sel_pl op valores clk 0
            (plantilla_rows (rondas_plt s) sel_pl) = Inr ds"
      using r ronda_rows_Inr_columns [OF r] by (simp add: ronda_rows_eq)
    from lecturas_ids [OF this] show ?thesis by simp
  qed
  have ok: "\<exists>ds. ronda_rows L sel_pl op valores clk s = Inr ds"
    if "set [''plantilla'', ''tag'', ''variable'', ''lim_inf'', ''lim_sup''] \<subseteq> set (columns (rondas_plt s))"
      and "''nombre'' \<in> set (columns (usuarios s))" and "numeric_limits (rondas_plt s)"
  proof -
    have "\<forall>r \<in> set (plantilla_rows (rondas_plt s) sel_pl).
            \<forall>c \<in> {''lim_inf'', ''lim_sup''}. \<forall>v. cell r c \<noteq> StrV v"
      using that(3) by (simp add: numeric_limits_def plantilla_rows_def)
    moreover have "set [''tag'', ''variable'', ''lim_inf'', ''lim_sup''] \<subseteq> set (columns (rondas_plt s))"
      using that(1) by simp
    ultimately show ?thesis
      using that(1,2) lecturas_succeed [of "columns (rondas_plt s)" "plantilla_rows (rondas_plt s) sel_pl"
          L "rondas_run s" sel_pl op valores clk 0]
      by (simp add: ronda_rows_eq)
  qed
  have save: "\<exists>s'. guardar_ronda L sel_pl op valores clk s = Inr s' \<and>
         length (rows (rondas_run s')) = length (rows (rondas_run s)) + length ds \<and>
         (\<forall>i < length ds.
            cell (rows (rondas_run s') ! (length (rows (rondas_run s)) + i)) ''id'' =
              (if float64_cells (column_cells (rondas_run s) ''id'')
               then FloatV (of_int (?next + int i)) else IntV (?next + int i))) \<and>
         disk s' F_RONDAS_RUN = Some (to_csv L (rondas_run s'))"
    if e: "\<not> df_empty (rondas_plt s)" and r: "ronda_rows L sel_pl op valores clk s = Inr ds" and n: "ds \<noteq> []"
    for ds
  proof -
    let ?df = "pd_concat (rondas_run s) (DataFrame_records ds)"
    let ?old = "column_cells (rondas_run s) ''id''"
    have len: "length (rows ?df) = length (rows (rondas_run s)) + length ds"
      by (simp add: length_rows_pd_concat length_rows_DataFrame_records)
    have new: "column_cells (DataFrame_records ds) ''id'' = map (\<lambda>i. IntV (?next + int i)) [0..<length ds]"
      by (rule batch_id_cells) (use ids [OF r] in simp)
    have f: "float64_cells (?old @ column_cells (DataFrame_records ds) ''id'') = float64_cells ?old"
      unfolding new by (rule float64_cells_append_integers) (auto simp add: is_integer_def)
    have col: "''id'' \<in> set (columns ?df)"
    proof -
      have 0: "0 < length ds" using n by simp
      then have "dict_get (ds ! 0) ''id'' \<noteq> NaN"
        using ids [OF r] by simp
      then have "''id'' \<in> fst ` set (ds ! 0)" by (rule key_of_dict_get)
      moreover have "ds ! 0 \<in> set ds" using 0 by simp
      ultimately have "''id'' \<in> set (columns (DataFrame_records ds))"
        unfolding set_columns_DataFrame_records by blast
      then show ?thesis by (auto simp add: columns_pd_concat)
    qed
    have "cell (rows ?df ! (length (rows (rondas_run s)) + i)) ''id'' =
        (if float64_cells ?old then FloatV (of_int (?next + int i)) else IntV (?next + int i))"
      if "i < length ds" for i
    proof -
      have "cell ((rows (rondas_run s) @ rows (DataFrame_records ds)) ! (length (rows (rondas_run s)) + i)) ''id''
          = column_cells (DataFrame_records ds) ''id'' ! i"
        using that by (simp add: column_cells_def length_rows_DataFrame_records)
      also have "\<dots> = IntV (?next + int i)"
        using that by (simp add: new)
      finally show ?thesis
        using that col f
        by (simp add: cell_rows_pd_concat length_rows_DataFrame_records to_float_def)
    qed
    then show ?thesis
      by (simp add: guardar_ronda_eq [OF e r n] len)
  qed
  show ?thesis
    using ids ok save by blast
qed

lemma rondas_columns:
  "columns seed_rondas = [''plantilla'', ''tag'', ''variable'', ''lim_inf'', ''lim_sup'']"
  by (simp add: seed_rondas_def DataFrame_records_def Let_def)

lemma usuarios_columns: "columns seed_usuarios = [''user_id'', ''nombre'', ''rol'', ''area'']"
  by (simp add: seed_usuarios_def DataFrame_records_def Let_def)

lemma rondas_cells:
  "map (\<lambda>r. (cell r ''plantilla'', cell r ''lim_inf'', cell r ''lim_sup'')) (rows seed_rondas) =
     [(StrV ''Ronda Compresores'', FloatV 2, FloatV 5), (StrV ''Ronda Compresores'', FloatV 20, FloatV 80),
      (StrV ''Ronda Tanques'', FloatV 10, FloatV 85), (StrV ''Ronda Tanques'', FloatV 10, FloatV 60)]"
proof -
  have z: "map (\<lambda>r. (f r, g r, h r)) xs = zip (map f xs) (zip (map g xs) (map h xs))"
    for f g h :: "row \<Rightarrow> cell" and xs
    by (induction xs) simp_all
  note c = column_cells_DataFrame_records [unfolded column_cells_def]
  show ?thesis
    unfolding z
    by (simp add: seed_rondas_def c dict_get_def float64_cells_def is_number_def is_floating_def
          to_float_def)
qed

lemma cell_eq_StrV: "cell_eq (StrV a) (StrV b) \<longleftrightarrow> a = b"
  by (simp add: cell_eq_def cell_num_def)

lemma length_filter_map: "length (filter P xs) = length (filter (\<lambda>y. P' y) (map f xs))"
  if "\<And>x. P x = P' (f x)"
  using that by (induction xs) auto

theorem batch_ids_witness:
  "\<exists>ds. ronda_rows ex_lib (StrV ''Ronda Tanques'') (StrV ''Operario 1'') (\<lambda>k. 50) (\<lambda>k. ex_time) ex_session = Inr ds \<and>
        length ds = 2 \<and>
        dict_get (ds ! 0) ''id'' = IntV 1 \<and> dict_get (ds ! 1) ''id'' = IntV 2"
proof -
  let ?sel = "StrV ''Ronda Tanques''"
  have plt: "rondas_plt ex_session = seed_rondas" and us: "usuarios ex_session = seed_usuarios"
    and run: "rondas_run ex_session = seed_rondas_run"
    by (simp_all add: ex_session_def)
  have lims: "numeric_limits (rondas_plt ex_session)"
  proof -
    have "\<forall>x \<in> set (map (\<lambda>r. (cell r ''plantilla'', cell r ''lim_inf'', cell r ''lim_sup'')) (rows seed_rondas)).
            \<forall>v. fst (snd x) \<noteq> StrV v \<and> snd (snd x) \<noteq> StrV v"
      unfolding rondas_cells by simp
    then show ?thesis by (simp add: numeric_limits_def plt)
  qed
  have n: "length (plantilla_rows (rondas_plt ex_session) ?sel) = 2"
  proof -
    have "length (plantilla_rows seed_rondas ?sel) =
          length (filter (\<lambda>x. cell_eq (fst x) ?sel)
            (map (\<lambda>r. (cell r ''plantilla'', cell r ''lim_inf'', cell r ''lim_sup'')) (rows seed_rondas)))"
      unfolding plantilla_rows_def by (rule length_filter_map) simp
    then show ?thesis unfolding rondas_cells by (simp add: plt cell_eq_StrV)
  qed
  have nx: "next_sequential_id (str_num ex_lib) (Some (rondas_run ex_session)) ''id'' = 1"
    by (simp add: run next_sequential_id_def df_empty_def seed_rondas_run_def DataFrame_columns_def)
  note t = batch_ids_are_next_id_plus_offset
    [of ex_lib ?sel "StrV ''Operario 1''" "\<lambda>k. 50" "\<lambda>k. ex_time" ex_session]
  from t lims obtain ds where
    ds: "ronda_rows ex_lib ?sel (StrV ''Operario 1'') (\<lambda>k. 50) (\<lambda>k. ex_time) ex_session = Inr ds"
    by (auto simp add: plt us rondas_columns usuarios_columns)
  with t have len: "length ds = length (plantilla_rows (rondas_plt ex_session) ?sel)"
    and ids: "\<forall>i < length ds. dict_get (ds ! i) ''id'' =
         IntV (next_sequential_id (str_num ex_lib) (Some (rondas_run ex_session)) ''id'' + int i)"
    by blast+
  have "dict_get (ds ! 0) ''id'' = IntV 1" and "dict_get (ds ! 1) ''id'' = IntV 2"
    using ids [rule_format, of 0] ids [rule_format, of 1] by (simp_all add: len n nx)
  then show ?thesis using ds len n by simp
qed

end
